theory Spec2Isabelle
  imports
    Complex_Main
    "HOL-Library.Multiset"
    "HOL-Library.Char_ord"
    "HOL-Library.List_Lexorder"
    "HOL-Library.Sublist"
begin

section \<open>MoodFlow: the entry, validation and aggregation logic of \<open>src/App.tsx\<close>\<close>

text \<open>
  The development embeds the logic of the React component \<open>App\<close>: the validators
  \<open>validateNumber\<close>, \<open>sanitizeString\<close>, \<open>validateDate\<close>, the form handler
  \<open>validateForm\<close>/\<open>handleSubmit\<close> with its date-keyed replacement of entries, the
  loading effect, the chart window \<open>last30Days\<close> and the reducer \<open>drugAnalysis\<close>.

  Conventions of the embedding.
  \<^item> A JavaScript string is a \<open>string\<close>; one \<open>char\<close> stands for one UTF-16 code unit
    with a code below 256, so \<open>length\<close> is the \<open>.length\<close> of the source.
  \<^item> A JavaScript number is a \<open>number\<close>: \<open>NaN\<close>, the two infinities, or a finite
    double, written as the rational it is. Sums and quotients are rounded by the
    function \<open>roundToDouble\<close> of the platform.
  \<^item> What the browser supplies (the clock, the time zone rules, \<open>parseFloat\<close>,
    \<open>parseInt\<close>, \<open>JSON.parse\<close>, the parsing of non-ISO date strings, the rounding of
    reals to doubles) is a field of the record \<open>platform\<close>; every theorem holds for
    every platform.
  \<^item> React state is a record that the handlers take and return. What \<open>JSON.parse\<close>
    hands to \<open>setEntries\<close> is unchecked, so the loading effect and the render that
    follows it work on a \<open>jsvalue\<close>, a value of any shape.
\<close>

subsection \<open>Strings\<close>

text \<open>
  \<open>String.prototype.trim\<close> strips WhiteSpace and LineTerminator code units from both
  ends. Below 256 these are TAB, LF, VT, FF, CR, SPACE and NO-BREAK SPACE.
\<close>

definition whiteSpace :: "char list" where
  "whiteSpace = [CHR 0x09, CHR 0x0A, CHR 0x0B, CHR 0x0C, CHR 0x0D, CHR 0x20, CHR 0xA0]"

definition isWhiteSpace :: "char \<Rightarrow> bool" where
  "isWhiteSpace c \<longleftrightarrow> c \<in> set whiteSpace"

definition trim :: "string \<Rightarrow> string" where
  "trim s = rev (dropWhile isWhiteSpace (rev (dropWhile isWhiteSpace s)))"

text \<open>
  \<open>String.prototype.toLowerCase\<close> on code units below 256: \<open>A\<close>--\<open>Z\<close> and the
  Latin-1 capitals \<open>0xC0\<close>--\<open>0xDE\<close> (without the multiplication sign \<open>0xD7\<close>) map to
  the code unit 32 above; everything else stays.
\<close>

definition upperCase :: "char list" where
  "upperCase = ''ABCDEFGHIJKLMNOPQRSTUVWXYZ'' @
     [CHR 0xC0, CHR 0xC1, CHR 0xC2, CHR 0xC3, CHR 0xC4, CHR 0xC5, CHR 0xC6, CHR 0xC7,
      CHR 0xC8, CHR 0xC9, CHR 0xCA, CHR 0xCB, CHR 0xCC, CHR 0xCD, CHR 0xCE, CHR 0xCF,
      CHR 0xD0, CHR 0xD1, CHR 0xD2, CHR 0xD3, CHR 0xD4, CHR 0xD5, CHR 0xD6, CHR 0xD8,
      CHR 0xD9, CHR 0xDA, CHR 0xDB, CHR 0xDC, CHR 0xDD, CHR 0xDE]"

definition lowerCase :: "char list" where
  "lowerCase = ''abcdefghijklmnopqrstuvwxyz'' @
     [CHR 0xE0, CHR 0xE1, CHR 0xE2, CHR 0xE3, CHR 0xE4, CHR 0xE5, CHR 0xE6, CHR 0xE7,
      CHR 0xE8, CHR 0xE9, CHR 0xEA, CHR 0xEB, CHR 0xEC, CHR 0xED, CHR 0xEE, CHR 0xEF,
      CHR 0xF0, CHR 0xF1, CHR 0xF2, CHR 0xF3, CHR 0xF4, CHR 0xF5, CHR 0xF6, CHR 0xF8,
      CHR 0xF9, CHR 0xFA, CHR 0xFB, CHR 0xFC, CHR 0xFD, CHR 0xFE]"

definition toLowerChar :: "char \<Rightarrow> char" where
  "toLowerChar c = (case map_of (zip upperCase lowerCase) c of Some l \<Rightarrow> l | None \<Rightarrow> c)"

definition toLowerCase :: "string \<Rightarrow> string" where
  "toLowerCase s = map toLowerChar s"

text \<open>\<open>s.split(',')\<close>: the pieces between the separators; never an empty array.\<close>

fun split :: "char \<Rightarrow> string \<Rightarrow> string list" where
  "split sep [] = [[]]"
| "split sep (c # cs) =
     (if c = sep then [] # split sep cs
      else (case split sep cs of
              [] \<Rightarrow> [[c]]
            | p # ps \<Rightarrow> (c # p) # ps))"

text \<open>
  \<open>a.localeCompare(b)\<close> on the strings the date input yields (ten characters, digits
  and hyphens): the sign of the code-unit lexicographic comparison.
\<close>

definition localeCompare :: "string \<Rightarrow> string \<Rightarrow> int" where
  "localeCompare a b = (if a < b then - 1 else if b < a then 1 else 0)"

text \<open>\<open>n.toString()\<close> for a non-negative integer: its decimal digits.\<close>

function digits_of :: "nat \<Rightarrow> string" where
  "digits_of n =
     (if n < 10 then [''0123456789'' ! n]
      else digits_of (n div 10) @ [''0123456789'' ! (n mod 10)])"
  by pat_completeness auto
termination
  by (relation "measure (\<lambda>n. n)") auto

declare digits_of.simps [simp del]

definition toString_nat :: "nat \<Rightarrow> string" where
  "toString_nat n = digits_of n"

subsection \<open>Numbers\<close>

datatype number = NaN | NegInfinity | Num rat | Infinity

fun isNaN :: "number \<Rightarrow> bool" where
  "isNaN NaN = True"
| "isNaN _ = False"

text \<open>\<open>a < b\<close> of JavaScript: false as soon as one side is \<open>NaN\<close>.\<close>

fun num_less :: "number \<Rightarrow> number \<Rightarrow> bool" where
  "num_less NaN _ = False"
| "num_less _ NaN = False"
| "num_less (Num a) (Num b) = (a < b)"
| "num_less NegInfinity NegInfinity = False"
| "num_less NegInfinity _ = True"
| "num_less _ NegInfinity = False"
| "num_less Infinity _ = False"
| "num_less _ Infinity = True"

subsection \<open>The data model\<close>

text \<open>\<open>interface MoodEntry\<close>; the fields \<open>id\<close> and \<open>notes\<close> are called \<open>ident\<close> and
  \<open>notes_str\<close> here (both names are taken in Isabelle).\<close>

record MoodEntry =
  ident :: string
  date :: string
  sleep :: number
  stress :: number
  symptoms :: number
  mood :: number
  engagement :: number
  drugNames :: string
  notes_str :: string

subsection \<open>\<open>Array.prototype.sort\<close> with a comparator\<close>

text \<open>
  \<open>xs.sort(cmp)\<close> is a stable sort: \<open>a\<close> is placed before \<open>b\<close> when \<open>cmp(a, b) < 0\<close>
  and elements that compare equal keep their order. Insertion from the right, each
  element going in front of the first one it does not follow, computes that result.
\<close>

fun insort_cmp :: "('a \<Rightarrow> 'a \<Rightarrow> int) \<Rightarrow> 'a \<Rightarrow> 'a list \<Rightarrow> 'a list" where
  "insort_cmp cmp x [] = [x]"
| "insort_cmp cmp x (y # ys) =
     (if cmp x y \<le> 0 then x # y # ys else y # insort_cmp cmp x ys)"

definition sort_cmp :: "('a \<Rightarrow> 'a \<Rightarrow> int) \<Rightarrow> 'a list \<Rightarrow> 'a list" where
  "sort_cmp cmp xs = foldr (insort_cmp cmp) xs []"

subsection \<open>The entry store: replacement by date\<close>

text \<open>The comparator \<open>(a, b) => b.date.localeCompare(a.date)\<close> of \<open>handleSubmit\<close>.\<close>

definition byDateDesc :: "MoodEntry \<Rightarrow> MoodEntry \<Rightarrow> int" where
  "byDateDesc a b = localeCompare (date b) (date a)"

text \<open>
  The updater passed to \<open>setEntries\<close>:
  \<^verbatim>\<open>prev => [...prev.filter(e => e.date !== formData.date), newEntry].sort(...)\<close>
\<close>

definition upsert :: "string \<Rightarrow> MoodEntry \<Rightarrow> MoodEntry list \<Rightarrow> MoodEntry list" where
  "upsert formDate newEntry prev =
     sort_cmp byDateDesc (filter (\<lambda>e. date e \<noteq> formDate) prev @ [newEntry])"

text \<open>The collection invariant: one entry per date, newest first.\<close>

definition uniqueDates :: "MoodEntry list \<Rightarrow> bool" where
  "uniqueDates es \<longleftrightarrow> distinct (map date es)"

definition sortedDesc :: "MoodEntry list \<Rightarrow> bool" where
  "sortedDesc es \<longleftrightarrow> sorted_wrt (\<lambda>a b. date b < date a) es"


subsection \<open>Values at run time\<close>

text \<open>
  The values \<open>JSON.parse\<close> can return: \<open>null\<close>, a boolean, a number, a string, an array,
  or an object given by its properties (distinct keys, in order).
\<close>

datatype jsvalue =
  VNull
| VBool bool
| VNum number
| VStr string
| VArr "jsvalue list"
| VObj "(string \<times> jsvalue) list"

subsection \<open>The browser\<close>

text \<open>
  What the component reads from its environment. \<open>now\<close> is the time value of
  \<open>new Date()\<close> and \<open>Date.now()\<close> (milliseconds since the epoch). \<open>LocalTZA t isUTC\<close> is
  the offset of local time from UTC in milliseconds that is in force at \<open>t\<close>, where \<open>t\<close>
  is a UTC time value when \<open>isUTC\<close> holds and a local one otherwise (it varies with
  \<open>t\<close> where daylight saving applies). \<open>Date_parse_other\<close> is the
  implementation-defined result of \<open>Date.parse\<close> on a string that is not an ISO
  calendar date (\<open>None\<close> is \<open>NaN\<close>). \<open>JSON_parse\<close> answers \<open>Inl\<close> with the message of the
  \<open>SyntaxError\<close> it throws, and otherwise the value parsed, whatever its shape.
  \<open>roundToDouble x\<close> is the Number value for the real \<open>x\<close>: the nearest double, or an
  infinity beyond the range. \<open>format_MMM_dd d\<close> is \<open>format(parseISO(d), 'MMM dd')\<close> of
  the library date-fns, where \<open>None\<close> is \<open>undefined\<close>: the label, or the message of
  the exception the library throws.
\<close>

record platform =
  now :: int
  LocalTZA :: "int \<Rightarrow> bool \<Rightarrow> int"
  Date_parse_other :: "string \<Rightarrow> int option"
  parseFloat :: "string \<Rightarrow> number"
  parseInt :: "string \<Rightarrow> number"
  JSON_parse :: "string \<Rightarrow> string + jsvalue"
  roundToDouble :: "rat \<Rightarrow> number"
  format_MMM_dd :: "jsvalue option \<Rightarrow> string + string"

subsection \<open>Arithmetic of numbers\<close>

text \<open>\<open>a + b\<close> of JavaScript: the exact sum of two finite doubles, rounded.\<close>

fun num_add :: "platform \<Rightarrow> number \<Rightarrow> number \<Rightarrow> number" where
  "num_add env NaN _ = NaN"
| "num_add env _ NaN = NaN"
| "num_add env (Num a) (Num b) = roundToDouble env (a + b)"
| "num_add env Infinity NegInfinity = NaN"
| "num_add env NegInfinity Infinity = NaN"
| "num_add env Infinity _ = Infinity"
| "num_add env _ Infinity = Infinity"
| "num_add env NegInfinity _ = NegInfinity"
| "num_add env _ NegInfinity = NegInfinity"

text \<open>
  \<open>total / count\<close> for a counter \<open>count\<close>, a non-negative integer: the exact quotient,
  rounded.
\<close>

fun num_div_count :: "platform \<Rightarrow> number \<Rightarrow> nat \<Rightarrow> number" where
  "num_div_count env NaN c = NaN"
| "num_div_count env (Num a) c =
     (if c = 0 then (if a = 0 then NaN else if 0 < a then Infinity else NegInfinity)
      else roundToDouble env (a / of_nat c))"
| "num_div_count env Infinity c = Infinity"
| "num_div_count env NegInfinity c = NegInfinity"

subsection \<open>Time values and calendar dates (ECMAScript, Date objects)\<close>

definition msPerDay :: int where
  "msPerDay = 86400000"

definition Day :: "int \<Rightarrow> int" where
  "Day t = t div msPerDay"

definition DaysInYear :: "int \<Rightarrow> int" where
  "DaysInYear y =
     (if y mod 4 \<noteq> 0 then 365 else if y mod 100 \<noteq> 0 then 366
      else if y mod 400 \<noteq> 0 then 365 else 366)"

definition DayFromYear :: "int \<Rightarrow> int" where
  "DayFromYear y =
     365 * (y - 1970) + (y - 1969) div 4 - (y - 1901) div 100 + (y - 1601) div 400"

text \<open>
  \<open>YearFromTime\<close> is the largest \<open>y\<close> with \<open>DayFromYear y \<le> Day t\<close>. It is computed
  from the estimate \<open>1970 + Day t / 365.2425\<close>, which is off by at most one
  (lemma \<open>YearFromDay_bounds\<close> below).
\<close>

definition YearFromDay :: "int \<Rightarrow> int" where
  "YearFromDay d =
     (let y0 = 1970 + (400 * d) div 146097
      in if DayFromYear (y0 + 1) \<le> d then y0 + 1
         else if DayFromYear y0 \<le> d then y0
         else y0 - 1)"

definition YearFromTime :: "int \<Rightarrow> int" where
  "YearFromTime t = YearFromDay (Day t)"

definition DayWithinYear :: "int \<Rightarrow> int" where
  "DayWithinYear t = Day t - DayFromYear (YearFromTime t)"

text \<open>The day within the year on which month \<open>m\<close> (0 to 11) starts; \<open>l\<close> is 1 in a leap year.\<close>

definition monthStart :: "int \<Rightarrow> int \<Rightarrow> int" where
  "monthStart l m =
     (if m \<le> 0 then 0 else if m = 1 then 31 else if m = 2 then 59 + l
      else if m = 3 then 90 + l else if m = 4 then 120 + l else if m = 5 then 151 + l
      else if m = 6 then 181 + l else if m = 7 then 212 + l else if m = 8 then 243 + l
      else if m = 9 then 273 + l else if m = 10 then 304 + l else 334 + l)"

definition leapDays :: "int \<Rightarrow> int" where
  "leapDays y = DaysInYear y - 365"

definition monthOfDay :: "int \<Rightarrow> int \<Rightarrow> int" where
  "monthOfDay l dwy =
     (if dwy < 31 then 0 else if dwy < 59 + l then 1 else if dwy < 90 + l then 2
      else if dwy < 120 + l then 3 else if dwy < 151 + l then 4 else if dwy < 181 + l then 5
      else if dwy < 212 + l then 6 else if dwy < 243 + l then 7 else if dwy < 273 + l then 8
      else if dwy < 304 + l then 9 else if dwy < 334 + l then 10 else 11)"

definition MonthFromTime :: "int \<Rightarrow> int" where
  "MonthFromTime t = monthOfDay (leapDays (YearFromTime t)) (DayWithinYear t)"

definition DateFromTime :: "int \<Rightarrow> int" where
  "DateFromTime t =
     DayWithinYear t - monthStart (leapDays (YearFromTime t)) (MonthFromTime t) + 1"

text \<open>\<open>MakeDay(year, month, date)\<close>; months beyond 0..11 carry into the year.\<close>

definition MakeDay :: "int \<Rightarrow> int \<Rightarrow> int \<Rightarrow> int" where
  "MakeDay year month dt =
     (let ym = year + month div 12; mn = month mod 12
      in DayFromYear ym + monthStart (leapDays ym) mn + dt - 1)"

definition MakeDate :: "int \<Rightarrow> int \<Rightarrow> int" where
  "MakeDate day time = day * msPerDay + time"

definition LocalTime :: "platform \<Rightarrow> int \<Rightarrow> int" where
  "LocalTime env t = t + LocalTZA env t True"

definition UTC :: "platform \<Rightarrow> int \<Rightarrow> int" where
  "UTC env t = t - LocalTZA env t False"

text \<open>The getters of a Date with time value \<open>t\<close>, and \<open>new Date(year, month, date)\<close>.\<close>

definition getFullYear :: "platform \<Rightarrow> int \<Rightarrow> int" where
  "getFullYear env t = YearFromTime (LocalTime env t)"

definition getMonth :: "platform \<Rightarrow> int \<Rightarrow> int" where
  "getMonth env t = MonthFromTime (LocalTime env t)"

definition getDate :: "platform \<Rightarrow> int \<Rightarrow> int" where
  "getDate env t = DateFromTime (LocalTime env t)"

definition newDate_ymd :: "platform \<Rightarrow> int \<Rightarrow> int \<Rightarrow> int \<Rightarrow> int" where
  "newDate_ymd env year month dt = UTC env (MakeDate (MakeDay year month dt) 0)"

text \<open>
  \<open>Date.parse\<close>. The date input of the form yields \<open>YYYY-MM-DD\<close>; an ISO calendar date
  is read as midnight UTC of that day. Any other string is left to the platform.
\<close>

definition digit :: "char \<Rightarrow> int option" where
  "digit c = map_of [(CHR ''0'', 0), (CHR ''1'', 1), (CHR ''2'', 2), (CHR ''3'', 3),
     (CHR ''4'', 4), (CHR ''5'', 5), (CHR ''6'', 6), (CHR ''7'', 7), (CHR ''8'', 8),
     (CHR ''9'', 9)] c"

fun digits_value :: "int \<Rightarrow> string \<Rightarrow> int option" where
  "digits_value acc [] = Some acc"
| "digits_value acc (c # cs) =
     (case digit c of None \<Rightarrow> None | Some v \<Rightarrow> digits_value (10 * acc + v) cs)"

definition DaysInMonth :: "int \<Rightarrow> int \<Rightarrow> int" where
  "DaysInMonth y m =
     (if m = 2 then 28 + leapDays y else if m \<in> {4, 6, 9, 11} then 30 else 31)"

definition parse_iso_date :: "string \<Rightarrow> (int \<times> int \<times> int) option" where
  "parse_iso_date s =
     (if length s = 10 \<and> s ! 4 = CHR ''-'' \<and> s ! 7 = CHR ''-'' then
        (case (digits_value 0 (take 4 s), digits_value 0 (take 2 (drop 5 s)),
               digits_value 0 (drop 8 s)) of
           (Some y, Some m, Some d) \<Rightarrow>
             if 1 \<le> m \<and> m \<le> 12 \<and> 1 \<le> d \<and> d \<le> DaysInMonth y m then Some (y, m, d)
             else None
         | _ \<Rightarrow> None)
      else None)"

definition Date_parse :: "platform \<Rightarrow> string \<Rightarrow> int option" where
  "Date_parse env s =
     (case parse_iso_date s of
        Some (y, m, d) \<Rightarrow> Some (MakeDate (MakeDay y (m - 1) d) 0)
      | None \<Rightarrow> Date_parse_other env s)"

text \<open>\<open>format(new Date(), 'yyyy-MM-dd')\<close> of date-fns, in local time, years 0 to 9999.\<close>

definition padStart :: "nat \<Rightarrow> string \<Rightarrow> string" where
  "padStart n s = replicate (n - length s) (CHR ''0'') @ s"

definition format_yyyy_MM_dd :: "platform \<Rightarrow> int \<Rightarrow> string" where
  "format_yyyy_MM_dd env t =
     padStart 4 (toString_nat (nat (getFullYear env t))) @ ''-'' @
     padStart 2 (toString_nat (nat (getMonth env t + 1))) @ ''-'' @
     padStart 2 (toString_nat (nat (getDate env t)))"

subsection \<open>The validators\<close>

text \<open>
  \<^verbatim>\<open>const num = parseFloat(value);
  if (isNaN(num) || num < min || num > max) return null;
  return num;\<close>
\<close>

definition validateNumber :: "platform \<Rightarrow> string \<Rightarrow> number \<Rightarrow> number \<Rightarrow> number option" where
  "validateNumber env v lo hi =
     (let num = parseFloat env v
      in if isNaN num \<or> num_less num lo \<or> num_less hi num then None else Some num)"

text \<open>The character class \<open>[<>\"'/;()&+]\<close> of \<open>sanitizeString\<close>.\<close>

definition disallowed :: "char list" where
  "disallowed = [CHR ''<'', CHR ''>'', CHR 0x22, CHR 0x27, CHR ''/'', CHR '';'',
     CHR ''('', CHR '')'', CHR ''&'', CHR ''+'']"

text \<open>\<^verbatim>\<open>input.replace(/[<>\"'/;()&+]/g, '').trim().substring(0, 500)\<close>\<close>

definition sanitizeString :: "string \<Rightarrow> string" where
  "sanitizeString input = take 500 (trim (filter (\<lambda>c. c \<notin> set disallowed) input))"

text \<open>
  \<^verbatim>\<open>const date = new Date(dateString);
  const today = new Date();
  const oneYearAgo = new Date(today.getFullYear() - 1, today.getMonth(), today.getDate());
  return date instanceof Date && !isNaN(date.getTime()) && date >= oneYearAgo && date <= today;\<close>
  The comparisons are on time values; the clock of this century keeps the year
  away from the two-digit years that \<open>new Date(y, m, d)\<close> moves into the 1900s.
\<close>

definition validateDate :: "platform \<Rightarrow> string \<Rightarrow> bool" where
  "validateDate env dateString =
     (let date = Date_parse env dateString;
          today = now env;
          oneYearAgo = newDate_ymd env (getFullYear env today - 1) (getMonth env today)
                         (getDate env today)
      in case date of
           None \<Rightarrow> False
         | Some t \<Rightarrow> oneYearAgo \<le> t \<and> t \<le> today)"


subsection \<open>The component state\<close>

text \<open>The four \<open>useState\<close> cells of \<open>App\<close>. An object used as a dictionary with string
  keys written once each (\<open>errors\<close>) is the list of its properties in insertion order.\<close>

datatype Tab = Entry | Charts | Reports

record FormData =
  form_date :: string
  form_sleep :: string
  form_stress :: string
  form_symptoms :: string
  form_mood :: string
  form_engagement :: string
  form_drugNames :: string
  form_notes :: string

record AppState =
  entries :: "MoodEntry list"
  activeTab :: Tab
  formData :: FormData
  errors :: "(string \<times> string) list"

text \<open>\<open>formData[field as keyof typeof formData]\<close> for the four names \<open>validateForm\<close> loops over.\<close>

definition formField :: "FormData \<Rightarrow> string \<Rightarrow> string" where
  "formField fd field =
     (if field = ''stress'' then form_stress fd
      else if field = ''symptoms'' then form_symptoms fd
      else if field = ''mood'' then form_mood fd
      else form_engagement fd)"

text \<open>The form as \<open>useState\<close> creates it and as \<open>handleSubmit\<close> resets it.\<close>

definition emptyForm :: "platform \<Rightarrow> FormData" where
  "emptyForm env =
     \<lparr>form_date = format_yyyy_MM_dd env (now env), form_sleep = [], form_stress = [],
      form_symptoms = [], form_mood = [], form_engagement = [], form_drugNames = [],
      form_notes = []\<rparr>"

definition initialState :: "platform \<Rightarrow> AppState" where
  "initialState env =
     \<lparr>entries = [], activeTab = Entry, formData = emptyForm env, errors = []\<rparr>"

subsection \<open>\<open>validateForm\<close> and \<open>handleSubmit\<close>\<close>

text \<open>The local \<open>newErrors\<close> of \<open>validateForm\<close>, built by its four blocks in order.\<close>

definition newErrors :: "platform \<Rightarrow> FormData \<Rightarrow> (string \<times> string) list" where
  "newErrors env fd =
     (if \<not> validateDate env (form_date fd)
      then [(''date'', ''Please enter a valid date within the last year'')] else []) @
     (if validateNumber env (form_sleep fd) (Num 0) (Num 24) = None
      then [(''sleep'', ''Sleep must be between 0-24 hours'')] else []) @
     concat (map (\<lambda>field.
        if validateNumber env (formField fd field) (Num 1) (Num 10) = None
        then [(field, field @ '' must be between 1-10'')] else [])
       [''stress'', ''symptoms'', ''mood'', ''engagement'']) @
     (if length (form_notes fd) < 10
      then [(''notes'', ''Notes must be at least 10 characters'')] else [])"

text \<open>\<open>validateForm\<close> stores the map with \<open>setErrors\<close> and answers whether it has no key.\<close>

definition validateForm :: "platform \<Rightarrow> AppState \<Rightarrow> bool \<times> AppState" where
  "validateForm env st =
     (let errs = newErrors env (formData st)
      in (errs = [], st\<lparr>errors := errs\<rparr>))"

text \<open>The object literal \<open>newEntry\<close> of \<open>handleSubmit\<close>.\<close>

definition newEntry :: "platform \<Rightarrow> FormData \<Rightarrow> MoodEntry" where
  "newEntry env fd =
     \<lparr>ident = toString_nat (nat (now env)),
      date = form_date fd,
      sleep = parseFloat env (form_sleep fd),
      stress = parseInt env (form_stress fd),
      symptoms = parseInt env (form_symptoms fd),
      mood = parseInt env (form_mood fd),
      engagement = parseInt env (form_engagement fd),
      drugNames = sanitizeString (form_drugNames fd),
      notes_str = sanitizeString (form_notes fd)\<rparr>"

definition handleSubmit :: "platform \<Rightarrow> AppState \<Rightarrow> AppState" where
  "handleSubmit env st =
     (case validateForm env st of
        (ok, st1) \<Rightarrow>
          if \<not> ok then st1
          else st1\<lparr>entries := upsert (form_date (formData st)) (newEntry env (formData st))
                                 (entries st1),
                   formData := emptyForm env,
                   errors := []\<rparr>)"

subsection \<open>Loading on mount\<close>

text \<open>
  \<^verbatim>\<open>const savedEntries = localStorage.getItem('moodTrackerEntries');
  if (savedEntries) {
    try { setEntries(JSON.parse(savedEntries)); }
    catch (error) { console.error('Error loading entries:', error); }
  }\<close>
  The store is a map from keys to strings (\<open>getItem\<close> answers \<open>null\<close> for a missing key;
  \<open>null\<close> and the empty string are falsy). The effect answers \<open>Inl\<close> when an exception
  leaves it, and otherwise the value it passes to \<open>setEntries\<close>, if it calls it, and
  the lines it writes to the console.
\<close>

definition try_catch :: "(string + 'a) \<Rightarrow> (string \<Rightarrow> string + 'a) \<Rightarrow> string + 'a" where
  "try_catch body handler = (case body of Inl error \<Rightarrow> handler error | Inr v \<Rightarrow> Inr v)"

definition load ::
  "platform \<Rightarrow> (string \<rightharpoonup> string) \<Rightarrow> string + (jsvalue option \<times> string list)" where
  "load env localStorage =
     (case localStorage ''moodTrackerEntries'' of
        None \<Rightarrow> Inr (None, [])
      | Some savedEntries \<Rightarrow>
          if savedEntries = [] then Inr (None, [])
          else try_catch
                 (case JSON_parse env savedEntries of
                    Inl error \<Rightarrow> Inl error
                  | Inr parsed \<Rightarrow> Inr (Some parsed, []))
                 (\<lambda>error. Inr (None, [''Error loading entries: '' @ error])))"

subsection \<open>The chart window\<close>

text \<open>\<open>xs.slice(start)\<close>: a negative \<open>start\<close> counts from the end; out of range is clamped.\<close>

definition slice :: "int \<Rightarrow> 'a list \<Rightarrow> 'a list" where
  "slice start xs =
     (let len = int (length xs);
          k = (if start < 0 then max (len + start) 0 else min start len)
      in drop (nat k) xs)"

text \<open>\<^verbatim>\<open>const last30Days = entries.slice(-30).reverse();\<close>\<close>

definition last30Days :: "MoodEntry list \<Rightarrow> MoodEntry list" where
  "last30Days es = rev (slice (- 30) es)"

subsection \<open>The render after loading\<close>

text \<open>
  The same line on whatever value \<open>cell\<close> the state cell \<open>entries\<close> holds. Only an array has
  \<open>slice\<close> and \<open>reverse\<close>: \<open>null\<close> has no properties, on a boolean, a number or an object
  \<open>entries.slice\<close> is not a function, and the slice of a string is a string, which has
  no \<open>reverse\<close>.
\<close>

definition last30Days_of :: "jsvalue \<Rightarrow> string + jsvalue list" where
  "last30Days_of cell =
     (case cell of
        VArr xs \<Rightarrow> Inr (rev (slice (- 30) xs))
      | VNull \<Rightarrow> Inl ''TypeError: Cannot read properties of null''
      | VStr s \<Rightarrow> Inl ''TypeError: reverse is not a function''
      | _ \<Rightarrow> Inl ''TypeError: entries.slice is not a function'')"

text \<open>
  \<open>e.date\<close> in \<^verbatim>\<open>last30Days.map(e => format(parseISO(e.date), 'MMM dd'))\<close>: reading a
  property of \<open>null\<close> throws; an object answers the property or \<open>undefined\<close> (\<open>None\<close>);
  any other value has no property \<open>date\<close>.
\<close>

definition date_of :: "jsvalue \<Rightarrow> string + jsvalue option" where
  "date_of e =
     (case e of
        VNull \<Rightarrow> Inl ''TypeError: Cannot read properties of null''
      | VObj ps \<Rightarrow> Inr (map_of ps ''date'')
      | _ \<Rightarrow> Inr None)"

text \<open>\<open>xs.map(f)\<close> and \<open>xs.reduce\<close> when the callback may throw: the first exception ends
  the loop.\<close>

fun traverse :: "('a \<Rightarrow> string + 'b) \<Rightarrow> 'a list \<Rightarrow> string + 'b list" where
  "traverse f [] = Inr []"
| "traverse f (x # xs) =
     (case f x of
        Inl error \<Rightarrow> Inl error
      | Inr y \<Rightarrow> (case traverse f xs of
                   Inl error \<Rightarrow> Inl error
                 | Inr ys \<Rightarrow> Inr (y # ys)))"

text \<open>The callback \<^verbatim>\<open>e => format(parseISO(e.date), 'MMM dd')\<close> of \<open>chartLabels\<close>.\<close>

definition chartLabel :: "platform \<Rightarrow> jsvalue \<Rightarrow> string + string" where
  "chartLabel env e =
     (case date_of e of
        Inl error \<Rightarrow> Inl error
      | Inr d \<Rightarrow> format_MMM_dd env d)"

text \<open>
  \<open>entry.drugNames.trim()\<close> in the reducer of \<open>drugAnalysis\<close>, which visits every element:
  it needs an object whose property \<open>drugNames\<close> is a string; \<open>null\<close> has no properties,
  \<open>undefined\<close> has no \<open>trim\<close>, and on any other value \<open>trim\<close> is not a function. The other
  reads of the body (\<open>e.mood\<close>, \<open>e.stress\<close>, \<open>e.engagement\<close>, \<open>e.sleep\<close>, \<open>entry.mood\<close>) never
  throw once these have passed.
\<close>

definition drugNames_of :: "jsvalue \<Rightarrow> string + string" where
  "drugNames_of entry =
     (case entry of
        VNull \<Rightarrow> Inl ''TypeError: Cannot read properties of null''
      | VObj ps \<Rightarrow>
          (case map_of ps ''drugNames'' of
             Some (VStr s) \<Rightarrow> Inr s
           | None \<Rightarrow> Inl ''TypeError: Cannot read properties of undefined''
           | Some VNull \<Rightarrow> Inl ''TypeError: Cannot read properties of null''
           | Some _ \<Rightarrow> Inl ''TypeError: entry.drugNames.trim is not a function'')
      | _ \<Rightarrow> Inl ''TypeError: Cannot read properties of undefined'')"

definition elements :: "jsvalue \<Rightarrow> jsvalue list" where
  "elements cell = (case cell of VArr xs \<Rightarrow> xs | _ \<Rightarrow> [])"

text \<open>
  The body of \<open>App\<close> as far as it depends on the cell: \<open>last30Days\<close>, \<open>chartLabels\<close> and
  the reducer of \<open>drugAnalysis\<close>. On mount the tab is the entry form, so the markup
  reads nothing else of the cell. An exception thrown while React renders the
  component is caught by nobody: React unmounts the whole application.
\<close>

definition renderBody :: "platform \<Rightarrow> jsvalue \<Rightarrow> string + string list" where
  "renderBody env cell =
     (case last30Days_of cell of
        Inl error \<Rightarrow> Inl error
      | Inr window \<Rightarrow>
          (case traverse (chartLabel env) window of
             Inl error \<Rightarrow> Inl error
           | Inr chartLabels \<Rightarrow>
               (case traverse drugNames_of (elements cell) of
                  Inl error \<Rightarrow> Inl error
                | Inr names \<Rightarrow> Inr chartLabels)))"

text \<open>
  Mounting: the cell starts as \<open>[]\<close> (\<open>useState<MoodEntry[]>([])\<close>), the effect runs, and
  a call of \<open>setEntries\<close> puts its argument into the cell and renders again. The
  answer is \<open>Inl\<close> when the application crashes, and otherwise the cell and the console.
\<close>

definition mount :: "platform \<Rightarrow> (string \<rightharpoonup> string) \<Rightarrow> string + (jsvalue \<times> string list)" where
  "mount env localStorage =
     (case load env localStorage of
        Inl error \<Rightarrow> Inl error
      | Inr (None, console) \<Rightarrow> Inr (VArr [], console)
      | Inr (Some v, console) \<Rightarrow>
          (case renderBody env v of
             Inl error \<Rightarrow> Inl error
           | Inr chartLabels \<Rightarrow> Inr (v, console)))"

text \<open>A typed entry as the value it is at run time.\<close>

definition entryValue :: "MoodEntry \<Rightarrow> jsvalue" where
  "entryValue e =
     VObj [(''id'', VStr (ident e)), (''date'', VStr (date e)), (''sleep'', VNum (sleep e)),
           (''stress'', VNum (stress e)), (''symptoms'', VNum (symptoms e)),
           (''mood'', VNum (mood e)), (''engagement'', VNum (engagement e)),
           (''drugNames'', VStr (drugNames e)), (''notes'', VStr (notes_str e))]"

subsection \<open>Drug analysis\<close>

record DrugStat =
  totalMood :: number
  count :: nat
  avgMood :: number

text \<open>
  The accumulator is the object literal \<open>{}\<close>. Reading \<open>acc[drug]\<close> finds an own property
  or, failing that, a property of \<open>Object.prototype\<close>; all of the latter are functions
  or objects, hence truthy. The map holds the own properties only: these are what
  \<open>Object.keys\<close>, \<open>Object.values\<close> and \<open>Object.entries\<close> show in the chart and the table.
\<close>

definition Object_prototype_keys :: "string list" where
  "Object_prototype_keys =
     [''constructor'', ''__defineGetter__'', ''__defineSetter__'', ''hasOwnProperty'',
      ''__lookupGetter__'', ''__lookupSetter__'', ''isPrototypeOf'',
      ''propertyIsEnumerable'', ''toString'', ''valueOf'', ''__proto__'',
      ''toLocaleString'']"

text \<open>
  \<^verbatim>\<open>acc[drug].totalMood += entry.mood;
  acc[drug].count += 1;
  acc[drug].avgMood = acc[drug].totalMood / acc[drug].count;\<close>
\<close>

definition addMood :: "platform \<Rightarrow> number \<Rightarrow> DrugStat \<Rightarrow> DrugStat" where
  "addMood env m st =
     (let t = num_add env (totalMood st) m; c = count st + 1
      in \<lparr>totalMood = t, count = c, avgMood = num_div_count env t c\<rparr>)"

text \<open>
  The body of \<open>drugs.forEach\<close>. When \<open>acc[drug]\<close> is inherited, \<open>!acc[drug]\<close> is false, no
  own property is created, and the three assignments write to the inherited object:
  the own properties of \<open>acc\<close> stay as they are.
\<close>

definition addDrug ::
  "platform \<Rightarrow> number \<Rightarrow> (string \<rightharpoonup> DrugStat) \<Rightarrow> string \<Rightarrow> (string \<rightharpoonup> DrugStat)" where
  "addDrug env m acc drug =
     (case acc drug of
        Some st \<Rightarrow> acc(drug \<mapsto> addMood env m st)
      | None \<Rightarrow>
          if drug \<in> set Object_prototype_keys then acc
          else acc(drug \<mapsto> addMood env m \<lparr>totalMood = Num 0, count = 0, avgMood = Num 0\<rparr>))"

text \<open>\<^verbatim>\<open>entry.drugNames.split(',').map(d => d.trim().toLowerCase()).filter(Boolean)\<close>\<close>

definition drugsOf :: "MoodEntry \<Rightarrow> string list" where
  "drugsOf entry =
     filter (\<lambda>d. d \<noteq> []) (map (\<lambda>d. toLowerCase (trim d)) (split (CHR '','') (drugNames entry)))"

definition drugReducer ::
  "platform \<Rightarrow> (string \<rightharpoonup> DrugStat) \<Rightarrow> MoodEntry \<Rightarrow> (string \<rightharpoonup> DrugStat)" where
  "drugReducer env acc entry =
     (if trim (drugNames entry) \<noteq> []
      then foldl (addDrug env (mood entry)) acc (drugsOf entry)
      else acc)"

definition drugAnalysis :: "platform \<Rightarrow> MoodEntry list \<Rightarrow> (string \<rightharpoonup> DrugStat)" where
  "drugAnalysis env es = foldl (drugReducer env) Map.empty es"

subsection \<open>Day numbers of the window of \<open>validateDate\<close>\<close>

text \<open>
  The day number of today's local calendar date, and of the calendar date that
  \<open>validateDate\<close> passes to \<open>new Date\<close> for \<open>oneYearAgo\<close>.
\<close>

definition todayDay :: "platform \<Rightarrow> int" where
  "todayDay env =
     MakeDay (getFullYear env (now env)) (getMonth env (now env)) (getDate env (now env))"

definition oneYearAgoDay :: "platform \<Rightarrow> int" where
  "oneYearAgoDay env =
     MakeDay (getFullYear env (now env) - 1) (getMonth env (now env)) (getDate env (now env))"

text \<open>
  The window in the words of the specification: the string parses to a date \<open>d\<close> with
  \<open>today - 365d \<le> d \<le> today\<close>.
\<close>

definition within365days :: "platform \<Rightarrow> string \<Rightarrow> bool" where
  "within365days env s =
     (case Date_parse env s of
        None \<Rightarrow> False
      | Some t \<Rightarrow> todayDay env - 365 \<le> Day t \<and> Day t \<le> todayDay env)"

subsection \<open>Mentions of a drug\<close>

text \<open>
  The moods of the entries that mention \<open>d\<close>, once per mention and in the order of the
  reduction, and the record that the three assignments build from such a list.
\<close>

definition mentions :: "string \<Rightarrow> MoodEntry \<Rightarrow> number list" where
  "mentions d e =
     (if trim (drugNames e) \<noteq> [] then map (\<lambda>_. mood e) (filter (\<lambda>x. x = d) (drugsOf e))
      else [])"

fun addMoods :: "platform \<Rightarrow> DrugStat option \<Rightarrow> number list \<Rightarrow> DrugStat option" where
  "addMoods env v [] = v"
| "addMoods env v (m # ms) =
     addMoods env
       (Some (addMood env m (case v of
                               None \<Rightarrow> \<lparr>totalMood = Num 0, count = 0, avgMood = Num 0\<rparr>
                             | Some st \<Rightarrow> st))) ms"

subsection \<open>A platform and entries for the examples\<close>

text \<open>
  \<open>sample_platform t tz\<close> has the clock at \<open>t\<close> in a zone that is always \<open>tz\<close>
  milliseconds ahead of UTC. On a string of decimal digits its \<open>parseFloat\<close> and
  \<open>parseInt\<close> give the number written, as a browser does; the examples use only such
  strings. Its \<open>JSON.parse\<close> reads the five texts \<open>[]\<close>, \<open>null\<close>, \<open>[null]\<close>, \<open>{}\<close> and \<open>3\<close> and
  rejects the two other blobs of the examples, the empty string and \<open>{oops\<close>. Its
  rounding is exact: the sums and quotients of the examples are small integers,
  which are doubles. Its date-fns is asked for one label only, that of 2026-10-30.
\<close>

definition sample_parseNumber :: "string \<Rightarrow> number" where
  "sample_parseNumber s =
     (if s = [] then NaN
      else case digits_value 0 s of None \<Rightarrow> NaN | Some v \<Rightarrow> Num (of_int v))"

definition sample_platform :: "int \<Rightarrow> int \<Rightarrow> platform" where
  "sample_platform t tz =
     \<lparr>now = t, LocalTZA = (\<lambda>u isUTC. tz), Date_parse_other = (\<lambda>s. None),
      parseFloat = sample_parseNumber, parseInt = sample_parseNumber,
      JSON_parse = (\<lambda>s. if s = ''[]'' then Inr (VArr [])
                        else if s = ''null'' then Inr VNull
                        else if s = ''[null]'' then Inr (VArr [VNull])
                        else if s = ''{}'' then Inr (VObj [])
                        else if s = ''3'' then Inr (VNum (Num 3))
                        else Inl ''SyntaxError''),
      roundToDouble = Num,
      format_MMM_dd = (\<lambda>d. if d = Some (VStr ''2026-10-30'') then Inr ''Oct 30''
                           else Inl ''RangeError: Invalid time value'')\<rparr>"

definition sample_entry :: "string \<Rightarrow> rat \<Rightarrow> string \<Rightarrow> MoodEntry" where
  "sample_entry d m drugs =
     \<lparr>ident = ''1793534400000'', date = d, sleep = Num 8, stress = Num 3, symptoms = Num 2,
      mood = Num m, engagement = Num 6, drugNames = drugs,
      notes_str = ''a quiet day at home''\<rparr>"


definition sample_form :: "string \<Rightarrow> string \<Rightarrow> FormData" where
  "sample_form m n =
     \<lparr>form_date = ''2024-03-01'', form_sleep = ''8'', form_stress = ''3'',
      form_symptoms = ''2'', form_mood = m, form_engagement = ''6'',
      form_drugNames = ''caffeine'', form_notes = n\<rparr>"

definition sample_state :: "FormData \<Rightarrow> AppState" where
  "sample_state fd =
     \<lparr>entries = [sample_entry ''2024-02-29'' 5 []], activeTab = Entry, formData = fd,
      errors = []\<rparr>"

text \<open>Thirty-one daily entries, newest first, as the store keeps them.\<close>

definition january :: "MoodEntry list" where
  "january = map (\<lambda>d. sample_entry d 5 [])
     [''2026-01-31'', ''2026-01-30'', ''2026-01-29'', ''2026-01-28'', ''2026-01-27'',
      ''2026-01-26'', ''2026-01-25'', ''2026-01-24'', ''2026-01-23'', ''2026-01-22'',
      ''2026-01-21'', ''2026-01-20'', ''2026-01-19'', ''2026-01-18'', ''2026-01-17'',
      ''2026-01-16'', ''2026-01-15'', ''2026-01-14'', ''2026-01-13'', ''2026-01-12'',
      ''2026-01-11'', ''2026-01-10'', ''2026-01-09'', ''2026-01-08'', ''2026-01-07'',
      ''2026-01-06'', ''2026-01-05'', ''2026-01-04'', ''2026-01-03'', ''2026-01-02'',
      ''2026-01-01'']"

section \<open>Properties\<close>

lemma sample_platform_sel [simp]:
  "now (sample_platform t tz) = t" "LocalTZA (sample_platform t tz) u b = tz"
  "Date_parse_other (sample_platform t tz) s = None"
  "parseFloat (sample_platform t tz) = sample_parseNumber"
  "parseInt (sample_platform t tz) = sample_parseNumber"
  "roundToDouble (sample_platform t tz) = Num"
  by (simp_all add: sample_platform_def)

lemma sample_zone: "LocalTZA (sample_platform t tz) = (\<lambda>u isUTC. tz)"
  by (simp add: sample_platform_def)

lemma sample_JSON_parse:
  "JSON_parse (sample_platform t tz) ''[]'' = Inr (VArr [])"
  "JSON_parse (sample_platform t tz) ''null'' = Inr VNull"
  "JSON_parse (sample_platform t tz) ''[null]'' = Inr (VArr [VNull])"
  "JSON_parse (sample_platform t tz) ''{}'' = Inr (VObj [])"
  "JSON_parse (sample_platform t tz) ''3'' = Inr (VNum (Num 3))"
  "JSON_parse (sample_platform t tz) [] = Inl ''SyntaxError''"
  "JSON_parse (sample_platform t tz) ''{oops'' = Inl ''SyntaxError''"
  by (simp_all add: sample_platform_def)

subsection \<open>Sorting with a comparator\<close>

lemma mset_insort_cmp: "mset (insort_cmp cmp x xs) = add_mset x (mset xs)"
  by (induction xs) auto

lemma mset_sort_cmp: "mset (sort_cmp cmp xs) = mset xs"
  unfolding sort_cmp_def by (induction xs) (auto simp: mset_insort_cmp)

lemma set_insort_cmp: "set (insort_cmp cmp x xs) = insert x (set xs)"
  by (induction xs) auto

lemma set_sort_cmp: "set (sort_cmp cmp xs) = set xs"
  unfolding sort_cmp_def by (induction xs) (auto simp: set_insort_cmp)

lemma length_sort_cmp: "length (sort_cmp cmp xs) = length xs"
proof -
  have "size (mset (sort_cmp cmp xs)) = size (mset xs)"
    by (simp add: mset_sort_cmp)
  then show ?thesis by simp
qed

lemma byDateDesc_le: "byDateDesc a b \<le> 0 \<longleftrightarrow> date b \<le> date a"
  by (auto simp: byDateDesc_def localeCompare_def)

lemma sorted_insort_byDateDesc:
  "sorted_wrt (\<lambda>a b. date b \<le> date a) xs \<Longrightarrow>
   sorted_wrt (\<lambda>a b. date b \<le> date a) (insort_cmp byDateDesc x xs)"
  by (induction xs) (auto simp: byDateDesc_le set_insort_cmp)

lemma sorted_sort_byDateDesc:
  "sorted_wrt (\<lambda>a b. date b \<le> date a) (sort_cmp byDateDesc xs)"
  unfolding sort_cmp_def by (induction xs) (auto simp: sorted_insort_byDateDesc)

lemma sorted_wrt_strict:
  "sorted_wrt (\<lambda>a b. date b \<le> date a) xs \<Longrightarrow> distinct (map date xs) \<Longrightarrow>
   sorted_wrt (\<lambda>a b. date b < date a) xs"
  by (induction xs) (auto simp: less_le image_iff)

lemma distinct_dates_mset:
  assumes "mset xs = mset ys"
  shows "distinct (map date xs) = distinct (map date ys)"
proof -
  have "mset (map date xs) = mset (map date ys)"
    using assms by (metis mset_map)
  then show ?thesis by (rule mset_eq_imp_distinct_iff)
qed

subsection \<open>Replacement by date\<close>

lemma mset_upsert:
  "mset (upsert d e prev) = add_mset e (mset (filter (\<lambda>x. date x \<noteq> d) prev))"
  by (simp add: upsert_def mset_sort_cmp)

lemma distinct_dates_filter_snoc:
  "distinct (map date prev) \<Longrightarrow>
   distinct (map date (filter (\<lambda>x. date x \<noteq> date e) prev @ [e]))"
  by (auto simp: distinct_map_filter)

lemma filter_other_dates_remove1:
  "distinct (map date xs) \<Longrightarrow> old \<in> set xs \<Longrightarrow>
   filter (\<lambda>y. date y \<noteq> date old) xs = remove1 old xs"
proof (induction xs)
  case Nil
  then show ?case by simp
next
  case (Cons a xs)
  show ?case
  proof (cases "a = old")
    case True
    with Cons.prems have "\<forall>y\<in>set xs. date y \<noteq> date old"
      by (auto simp: image_iff)
    then have "filter (\<lambda>y. date y \<noteq> date old) xs = xs"
      by (simp add: filter_id_conv)
    with True show ?thesis by simp
  next
    case False
    with Cons.prems have "old \<in> set xs" by simp
    with Cons.prems have "date a \<noteq> date old"
      by (auto simp: image_iff)
    with Cons False \<open>old \<in> set xs\<close> show ?thesis by simp
  qed
qed

lemma upsert_sorted_any:
  "sorted_wrt (\<lambda>a b. date b \<le> date a) (upsert d e prev)"
  unfolding upsert_def by (rule sorted_sort_byDateDesc)

lemma upsert_keeps_invariant:
  assumes "distinct (map date prev)"
  shows "sorted_wrt (\<lambda>a b. date b < date a) (upsert (date e) e prev)
       \<and> distinct (map date (upsert (date e) e prev))"
proof -
  let ?new = "filter (\<lambda>x. date x \<noteq> date e) prev @ [e]"
  have m: "mset (upsert (date e) e prev) = mset ?new"
    by (simp add: mset_upsert)
  have "distinct (map date ?new)"
    using assms by (rule distinct_dates_filter_snoc)
  then have u: "distinct (map date (upsert (date e) e prev))"
    using distinct_dates_mset [OF m] by simp
  with upsert_sorted_any [of "date e" e prev] show ?thesis
    by (simp add: sorted_wrt_strict)
qed

text \<open>Every collection built from the empty one by submissions satisfies the invariant.\<close>

lemma store_invariant:
  "sortedDesc (foldl (\<lambda>prev e. upsert (date e) e prev) [] es)
   \<and> uniqueDates (foldl (\<lambda>prev e. upsert (date e) e prev) [] es)"
proof -
  have "distinct (map date st) \<Longrightarrow>
        sorted_wrt (\<lambda>a b. date b < date a) st \<Longrightarrow>
        sorted_wrt (\<lambda>a b. date b < date a) (foldl (\<lambda>prev e. upsert (date e) e prev) st es)
        \<and> distinct (map date (foldl (\<lambda>prev e. upsert (date e) e prev) st es))" for st
  proof (induction es arbitrary: st)
    case Nil
    then show ?case by simp
  next
    case (Cons e es)
    from upsert_keeps_invariant [OF Cons.prems(1), of e] Cons.IH [of "upsert (date e) e st"]
    show ?case by simp
  qed
  from this [of "[]"] show ?thesis
    by (simp add: sortedDesc_def uniqueDates_def)
qed

text \<open>
  C2. A collection with one entry per date stays so under the replacement of
  \<open>handleSubmit\<close>, and comes out sorted by date, strictly descending in the
  lexicographic order of the date strings.
\<close>

theorem upsert_sorted_unique:
  assumes "uniqueDates prev"
  shows "sortedDesc (upsert (date e) e prev) \<and> uniqueDates (upsert (date e) e prev)"
  using assms upsert_keeps_invariant [of prev e]
  by (simp add: sortedDesc_def uniqueDates_def)

theorem upsert_sorted_unique_witness:
  "uniqueDates [sample_entry ''2026-10-30'' 7 [], sample_entry ''2026-10-28'' 4 []]
   \<and> sortedDesc (upsert ''2026-10-29'' (sample_entry ''2026-10-29'' 6 [])
        [sample_entry ''2026-10-30'' 7 [], sample_entry ''2026-10-28'' 4 []])
   \<and> uniqueDates (upsert ''2026-10-29'' (sample_entry ''2026-10-29'' 6 [])
        [sample_entry ''2026-10-30'' 7 [], sample_entry ''2026-10-28'' 4 []])"
  using upsert_sorted_unique
    [of "[sample_entry ''2026-10-30'' 7 [], sample_entry ''2026-10-28'' 4 []]"
        "sample_entry ''2026-10-29'' 6 []"]
  by (simp add: uniqueDates_def sample_entry_def)

text \<open>
  C3. When the collection (one entry per date) already holds an entry \<open>old\<close> for the
  date of the new entry, the replacement keeps the size, removes exactly \<open>old\<close>, adds
  the new entry as the only one for that date, and keeps every entry of another
  date as it was.
\<close>

theorem upsert_replaces:
  assumes "uniqueDates prev" and "old \<in> set prev" and "date old = date e"
  shows "length (upsert (date e) e prev) = length prev
       \<and> mset (upsert (date e) e prev) = add_mset e (mset prev - {#old#})
       \<and> e \<in> set (upsert (date e) e prev)
       \<and> (\<forall>x \<in> set (upsert (date e) e prev). date x = date e \<longrightarrow> x = e)
       \<and> (\<forall>x \<in> set prev. date x \<noteq> date e \<longrightarrow> x \<in> set (upsert (date e) e prev))"
proof -
  let ?r = "upsert (date e) e prev"
  have f: "filter (\<lambda>x. date x \<noteq> date e) prev = remove1 old prev"
    using assms filter_other_dates_remove1 [of prev old]
    by (simp add: uniqueDates_def)
  have m: "mset ?r = add_mset e (mset prev - {#old#})"
    by (simp add: mset_upsert f)
  have s: "set ?r = insert e {x \<in> set prev. date x \<noteq> date e}"
    unfolding upsert_def by (auto simp: set_sort_cmp)
  have "length ?r = Suc (length (remove1 old prev))"
    by (simp add: upsert_def length_sort_cmp f)
  also have "\<dots> = length prev"
    using assms(2) by (simp add: length_remove1) (cases prev; simp)
  finally have l: "length ?r = length prev" .
  from l m s show ?thesis by auto
qed

theorem upsert_replaces_witness:
  "uniqueDates [sample_entry ''2026-10-30'' 7 [], sample_entry ''2026-10-28'' 4 []]
   \<and> sample_entry ''2026-10-28'' 4 []
        \<in> set [sample_entry ''2026-10-30'' 7 [], sample_entry ''2026-10-28'' 4 []]
   \<and> date (sample_entry ''2026-10-28'' 4 []) = date (sample_entry ''2026-10-28'' 9 ''tea'')
   \<and> length (upsert ''2026-10-28'' (sample_entry ''2026-10-28'' 9 ''tea'')
        [sample_entry ''2026-10-30'' 7 [], sample_entry ''2026-10-28'' 4 []]) = 2
   \<and> sample_entry ''2026-10-28'' 9 ''tea''
        \<in> set (upsert ''2026-10-28'' (sample_entry ''2026-10-28'' 9 ''tea'')
            [sample_entry ''2026-10-30'' 7 [], sample_entry ''2026-10-28'' 4 []])"
  using upsert_replaces
    [of "[sample_entry ''2026-10-30'' 7 [], sample_entry ''2026-10-28'' 4 []]"
        "sample_entry ''2026-10-28'' 4 []" "sample_entry ''2026-10-28'' 9 ''tea''"]
  by (simp add: uniqueDates_def sample_entry_def)

text \<open>
  C10. When no entry of the collection has the date of the new entry, the
  replacement adds the new entry and nothing else: the size grows by one and every
  earlier entry is still there, unchanged.
\<close>

theorem upsert_new_date:
  assumes "date e \<notin> date ` set prev"
  shows "length (upsert (date e) e prev) = Suc (length prev)
       \<and> mset (upsert (date e) e prev) = add_mset e (mset prev)
       \<and> (\<forall>x \<in> set prev. x \<in> set (upsert (date e) e prev))"
proof -
  have "filter (\<lambda>x. date x \<noteq> date e) prev = prev"
    using assms by (auto simp: filter_id_conv image_iff)
  then have m: "mset (upsert (date e) e prev) = add_mset e (mset prev)"
    by (simp add: mset_upsert)
  then have "size (mset (upsert (date e) e prev)) = size (add_mset e (mset prev))"
    by simp
  then have l: "length (upsert (date e) e prev) = Suc (length prev)"
    by simp
  have "set (upsert (date e) e prev) = insert e (set prev)"
    using m by (metis set_mset_add_mset_insert set_mset_mset)
  with m l show ?thesis by auto
qed

theorem upsert_new_date_witness:
  "date (sample_entry ''2026-10-29'' 6 [])
     \<notin> date ` set [sample_entry ''2026-10-30'' 7 [], sample_entry ''2026-10-28'' 4 []]
   \<and> length (upsert ''2026-10-29'' (sample_entry ''2026-10-29'' 6 [])
        [sample_entry ''2026-10-30'' 7 [], sample_entry ''2026-10-28'' 4 []]) = 3
   \<and> sample_entry ''2026-10-30'' 7 []
        \<in> set (upsert ''2026-10-29'' (sample_entry ''2026-10-29'' 6 [])
            [sample_entry ''2026-10-30'' 7 [], sample_entry ''2026-10-28'' 4 []])"
  using upsert_new_date
    [of "sample_entry ''2026-10-29'' 6 []"
        "[sample_entry ''2026-10-30'' 7 [], sample_entry ''2026-10-28'' 4 []]"]
  by (simp add: sample_entry_def)


subsection \<open>The chart window\<close>

lemma slice_neg: "0 < n \<Longrightarrow> slice (- int n) xs = drop (length xs - n) xs"
  by (simp add: slice_def Let_def max_def nat_diff_distrib')

lemma last30Days_eq: "last30Days es = rev (drop (length es - 30) es)"
  using slice_neg [of 30 es] by (simp add: last30Days_def)

lemma last30Days_short: "length es \<le> 30 \<Longrightarrow> last30Days es = rev es"
  by (simp add: last30Days_eq)

lemma last30Days_ascending:
  "sortedDesc es \<Longrightarrow> sorted_wrt (\<lambda>a b. date a < date b) (last30Days es)"
  unfolding last30Days_eq sortedDesc_def
  by (simp add: sorted_wrt_rev sorted_wrt_drop)

lemma last30Days_drops_newest:
  assumes "30 < length es" and "sortedDesc es"
  shows "hd es \<notin> set (last30Days es)" and "last30Days es \<noteq> rev (take 30 es)"
proof -
  let ?k = "length es - 30"
  from assms(1) have k: "0 < ?k" "?k \<le> length es" by simp_all
  have "sorted_wrt (\<lambda>a b. date b < date a) (take ?k es @ drop ?k es)"
    using assms(2) by (simp add: sortedDesc_def)
  then have sep: "\<forall>x\<in>set (take ?k es). \<forall>y\<in>set (drop ?k es). date y < date x"
    unfolding sorted_wrt_append by blast
  from assms(1) have ne: "es \<noteq> []" by auto
  with k have h: "hd es \<in> set (take ?k es)"
    by (cases es) (auto simp: take_Cons')
  show 1: "hd es \<notin> set (last30Days es)"
  proof
    assume "hd es \<in> set (last30Days es)"
    then have "hd es \<in> set (drop ?k es)" by (simp add: last30Days_eq)
    with sep h have "date (hd es) < date (hd es)" by blast
    then show False by simp
  qed
  have "hd es \<in> set (rev (take 30 es))"
    using ne by (cases es) simp_all
  with 1 show "last30Days es \<noteq> rev (take 30 es)" by metis
qed

lemma successively_sortedDesc:
  "successively (\<lambda>a b. date b < date a) es \<Longrightarrow> sortedDesc es"
proof -
  have "transp (\<lambda>a b :: MoodEntry. date b < date a)"
    by (auto simp: transp_def)
  then show "successively (\<lambda>a b. date b < date a) es \<Longrightarrow> sortedDesc es"
    by (simp add: sortedDesc_def successively_conv_sorted_wrt)
qed

lemma january_sorted: "sortedDesc january"
  by (rule successively_sortedDesc) (simp add: january_def sample_entry_def)

lemma january_length: "length january = 31"
  by (simp add: january_def)

text \<open>
  C1. On a store of more than thirty entries (sorted by date, newest first) the
  window is not made of the most recent thirty: for the thirty-one days of January
  2026 it holds the 1st to the 30th, in ascending order, and leaves out the 31st,
  the newest entry. Up to thirty entries the window is the whole collection in
  ascending order (\<open>last30Days_short\<close>, \<open>last30Days_ascending\<close>).
\<close>

theorem last30Days_january:
  "sortedDesc january \<and> length january = 31
   \<and> map date (last30Days january) =
     [''2026-01-01'', ''2026-01-02'', ''2026-01-03'', ''2026-01-04'', ''2026-01-05'',
      ''2026-01-06'', ''2026-01-07'', ''2026-01-08'', ''2026-01-09'', ''2026-01-10'',
      ''2026-01-11'', ''2026-01-12'', ''2026-01-13'', ''2026-01-14'', ''2026-01-15'',
      ''2026-01-16'', ''2026-01-17'', ''2026-01-18'', ''2026-01-19'', ''2026-01-20'',
      ''2026-01-21'', ''2026-01-22'', ''2026-01-23'', ''2026-01-24'', ''2026-01-25'',
      ''2026-01-26'', ''2026-01-27'', ''2026-01-28'', ''2026-01-29'', ''2026-01-30'']
   \<and> hd january \<notin> set (last30Days january)
   \<and> date (hd january) = ''2026-01-31''
   \<and> last30Days january \<noteq> rev (take 30 january)"
  using last30Days_drops_newest [of january]
  by (simp add: january_sorted january_length)
     (simp add: last30Days_eq january_def sample_entry_def)

subsection \<open>Drug analysis\<close>

lemmas string_defs = trim_def isWhiteSpace_def whiteSpace_def toLowerCase_def toLowerChar_def
  upperCase_def lowerCase_def

lemma drugsOf_examples:
  "drugsOf (sample_entry d m ''caffeine'') = [''caffeine'']"
  "drugsOf (sample_entry d m ''Caffeine, vitamin d'') = [''caffeine'', ''vitamin d'']"
  "drugsOf (sample_entry d m ''constructor'') = [''constructor'']"
  "drugsOf (sample_entry d m ''Tea, tea,, TEA '') = [''tea'', ''tea'', ''tea'']"
  by (simp_all add: drugsOf_def sample_entry_def string_defs)

lemma trim_examples:
  "trim ''caffeine'' = ''caffeine''"
  "trim ''Caffeine, vitamin d'' = ''Caffeine, vitamin d''"
  "trim ''constructor'' = ''constructor''"
  "trim ''Tea, tea,, TEA '' = ''Tea, tea,, TEA''"
  by (simp_all add: string_defs)

lemma addMood_eq:
  "addMood env m st =
     \<lparr>totalMood = num_add env (totalMood st) m, count = Suc (count st),
      avgMood = num_div_count env (num_add env (totalMood st) m) (Suc (count st))\<rparr>"
  by (simp add: addMood_def Let_def)

lemma drugAnalysis_example:
  "drugAnalysis (sample_platform t tz)
     [sample_entry ''2026-10-30'' 8 ''caffeine'',
      sample_entry ''2026-10-29'' 4 ''Caffeine, vitamin d''] ''caffeine''
     = Some \<lparr>totalMood = Num 12, count = 2, avgMood = Num 6\<rparr>
   \<and> drugAnalysis (sample_platform t tz)
     [sample_entry ''2026-10-30'' 8 ''caffeine'',
      sample_entry ''2026-10-29'' 4 ''Caffeine, vitamin d''] ''vitamin d''
     = Some \<lparr>totalMood = Num 4, count = 1, avgMood = Num 4\<rparr>
   \<and> dom (drugAnalysis (sample_platform t tz)
     [sample_entry ''2026-10-30'' 8 ''caffeine'',
      sample_entry ''2026-10-29'' 4 ''Caffeine, vitamin d''])
     = {''caffeine'', ''vitamin d''}"
  by (simp add: drugAnalysis_def drugReducer_def drugsOf_examples)
     (simp add: sample_entry_def trim_examples addDrug_def addMood_eq Object_prototype_keys_def
        insert_commute)

lemma drugAnalysis_duplicates:
  "drugAnalysis (sample_platform t tz) [sample_entry ''2026-10-30'' 6 ''Tea, tea,, TEA '']
   = [''tea'' \<mapsto> \<lparr>totalMood = Num 18, count = 3, avgMood = Num 6\<rparr>]"
  by (simp add: drugAnalysis_def drugReducer_def drugsOf_examples)
     (simp add: sample_entry_def trim_examples addDrug_def addMood_eq Object_prototype_keys_def
        eval_nat_numeral)

text \<open>
  The tokens are in lower case, so of the names that \<open>Object.prototype\<close> defines only
  \<open>constructor\<close> and \<open>__proto__\<close> can be one.
\<close>

lemma lower_case_prototype_keys:
  "filter (\<lambda>k. toLowerCase k = k) Object_prototype_keys = [''constructor'', ''__proto__'']"
  by (simp add: Object_prototype_keys_def string_defs)

text \<open>
  For a name that \<open>Object.prototype\<close> does not define, the reduction over all entries
  yields exactly the count of its mentions (a name repeated in one entry counts each
  time), the sum of the moods and their quotient.
\<close>

lemma addMoods_append: "addMoods env v (xs @ ys) = addMoods env (addMoods env v xs) ys"
  by (induction xs arbitrary: v) auto

lemma addDrug_other: "x \<noteq> d \<Longrightarrow> addDrug env m acc x d = acc d"
  by (simp add: addDrug_def split: option.splits)

lemma addDrug_same:
  "d \<notin> set Object_prototype_keys \<Longrightarrow> addDrug env m acc d d = addMoods env (acc d) [m]"
  by (simp add: addDrug_def split: option.splits)

lemma foldl_addDrug:
  "d \<notin> set Object_prototype_keys \<Longrightarrow>
   foldl (addDrug env m) acc ds d
     = addMoods env (acc d) (map (\<lambda>_. m) (filter (\<lambda>x. x = d) ds))"
proof (induction ds arbitrary: acc)
  case Nil
  then show ?case by simp
next
  case (Cons x ds)
  show ?case
  proof (cases "x = d")
    case True
    then show ?thesis
      using Cons.IH [OF Cons.prems, of "addDrug env m acc d"]
        addDrug_same [OF Cons.prems, of env m acc]
      by simp
  next
    case False
    then show ?thesis
      using Cons.IH [OF Cons.prems, of "addDrug env m acc x"] addDrug_other [of x d env m acc]
      by simp
  qed
qed

lemma drugReducer_at:
  "d \<notin> set Object_prototype_keys \<Longrightarrow>
   drugReducer env acc e d = addMoods env (acc d) (mentions d e)"
  by (simp add: drugReducer_def mentions_def foldl_addDrug)

lemma foldl_drugReducer:
  "d \<notin> set Object_prototype_keys \<Longrightarrow>
   foldl (drugReducer env) acc es d = addMoods env (acc d) (concat (map (mentions d) es))"
  by (induction es arbitrary: acc) (simp_all add: drugReducer_at addMoods_append)

lemma addMoods_Some:
  "\<exists>st'. addMoods env (Some st) ms = Some st'
     \<and> count st' = count st + length ms
     \<and> totalMood st' = foldl (num_add env) (totalMood st) ms
     \<and> (ms \<noteq> [] \<longrightarrow> avgMood st' = num_div_count env (totalMood st') (count st'))"
proof (induction ms arbitrary: st)
  case Nil
  then show ?case by simp
next
  case (Cons m ms)
  show ?case
  proof (cases "ms = []")
    case True
    then show ?thesis by (simp add: addMood_eq)
  next
    case False
    obtain st' where s: "addMoods env (Some (addMood env m st)) ms = Some st'"
      "count st' = count (addMood env m st) + length ms"
      "totalMood st' = foldl (num_add env) (totalMood (addMood env m st)) ms"
      "ms \<noteq> [] \<longrightarrow> avgMood st' = num_div_count env (totalMood st') (count st')"
      using Cons.IH [of "addMood env m st"] by blast
    with False show ?thesis by (simp add: addMood_eq)
  qed
qed

lemma drugAnalysis_general:
  assumes "d \<notin> set Object_prototype_keys"
  shows "drugAnalysis env es d =
     (if concat (map (mentions d) es) = [] then None
      else Some \<lparr>totalMood = foldl (num_add env) (Num 0) (concat (map (mentions d) es)),
                 count = length (concat (map (mentions d) es)),
                 avgMood = num_div_count env
                             (foldl (num_add env) (Num 0) (concat (map (mentions d) es)))
                             (length (concat (map (mentions d) es)))\<rparr>)"
proof -
  let ?ms = "concat (map (mentions d) es)"
  have a: "drugAnalysis env es d = addMoods env None ?ms"
    using foldl_drugReducer [OF assms, of env Map.empty es] by (simp add: drugAnalysis_def)
  show ?thesis
  proof (cases ?ms)
    case Nil
    then show ?thesis by (simp only: a addMoods.simps refl if_True)
  next
    case (Cons m ms)
    let ?z = "\<lparr>totalMood = Num 0, count = 0, avgMood = Num 0\<rparr>"
    have "addMoods env None ?ms = addMoods env (Some ?z) ?ms"
      by (simp add: Cons)
    moreover obtain st' where "addMoods env (Some ?z) ?ms = Some st'"
      "count st' = count ?z + length ?ms"
      "totalMood st' = foldl (num_add env) (totalMood ?z) ?ms"
      "?ms \<noteq> [] \<longrightarrow> avgMood st' = num_div_count env (totalMood st') (count st')"
      using addMoods_Some [of env ?z ?ms] by blast
    ultimately show ?thesis using Cons a by simp
  qed
qed

text \<open>
  C4. For the entry with mood 8 and \<open>drugNames\<close> \<open>constructor\<close> the token list is
  \<open>[constructor]\<close>, yet the result has no key at all: \<open>acc['constructor']\<close> is the
  inherited \<open>Object\<close> function, so no record is created and nothing is counted. The
  example of the specification and the counting of duplicates hold
  (\<open>drugAnalysis_example\<close>, \<open>drugAnalysis_duplicates\<close>, \<open>drugAnalysis_general\<close>).
\<close>

theorem drugAnalysis_constructor:
  "drugsOf (sample_entry ''2026-10-30'' 8 ''constructor'') = [''constructor'']
   \<and> drugAnalysis env [sample_entry ''2026-10-30'' 8 ''constructor''] = Map.empty"
  by (simp add: drugAnalysis_def drugReducer_def drugsOf_examples)
     (simp add: sample_entry_def trim_examples addDrug_def Object_prototype_keys_def)

subsection \<open>The example platform\<close>

lemma noon_2024_03_01:
  "Day 1709294400000 = 19783" "YearFromTime 1709294400000 = 2024"
  "MonthFromTime 1709294400000 = 2" "DateFromTime 1709294400000 = 1"
proof -
  show d: "Day 1709294400000 = 19783" by (simp add: Day_def msPerDay_def)
  have "YearFromDay 19783 = 2024" by (simp add: YearFromDay_def DayFromYear_def)
  then show y: "YearFromTime 1709294400000 = 2024" by (simp add: YearFromTime_def d)
  have w: "DayWithinYear 1709294400000 = 60" by (simp add: DayWithinYear_def d y DayFromYear_def)
  have l: "leapDays 2024 = 1" by (simp add: leapDays_def DaysInYear_def)
  show m: "MonthFromTime 1709294400000 = 2" by (simp add: MonthFromTime_def y w l monthOfDay_def)
  show "DateFromTime 1709294400000 = 1" by (simp add: DateFromTime_def y w l m monthStart_def)
qed

lemma MakeDay_examples:
  "MakeDay 2023 2 1 = 19417" "MakeDay 2024 2 1 = 19783" "MakeDay 2023 1 28 = 19416"
  by (simp_all add: MakeDay_def DayFromYear_def leapDays_def DaysInYear_def monthStart_def)

lemma parse_examples:
  "parse_iso_date ''2023-03-01'' = Some (2023, 3, 1)"
  "parse_iso_date ''2023-02-28'' = Some (2023, 2, 28)"
  "parse_iso_date ''2024-03-01'' = Some (2024, 3, 1)"
  by (simp_all add: parse_iso_date_def digit_def DaysInMonth_def leapDays_def DaysInYear_def)

lemma validateDate_sample: "validateDate (sample_platform 1709294400000 0) ''2024-03-01''"
  by (simp add: validateDate_def Date_parse_def parse_examples newDate_ymd_def UTC_def
      getFullYear_def getMonth_def getDate_def LocalTime_def noon_2024_03_01 MakeDay_examples
      MakeDate_def msPerDay_def)

lemma validateDate_sample_2023: "validateDate (sample_platform 1709294400000 0) ''2023-03-01''"
  by (simp add: validateDate_def Date_parse_def parse_examples newDate_ymd_def UTC_def
      getFullYear_def getMonth_def getDate_def LocalTime_def noon_2024_03_01 MakeDay_examples
      MakeDate_def msPerDay_def)

lemma sample_parseNumber_examples:
  "sample_parseNumber ''8'' = Num 8" "sample_parseNumber ''3'' = Num 3"
  "sample_parseNumber ''2'' = Num 2" "sample_parseNumber ''6'' = Num 6"
  "sample_parseNumber ''7'' = Num 7" "sample_parseNumber ''11'' = Num 11"
  by (simp_all add: sample_parseNumber_def digit_def)

subsection \<open>Validation of the form\<close>

lemma validateNumber_None_iff:
  "validateNumber env v lo hi = None \<longleftrightarrow>
     isNaN (parseFloat env v) \<or> num_less (parseFloat env v) lo \<or> num_less hi (parseFloat env v)"
  by (simp add: validateNumber_def Let_def)

lemma validateNumber_out_of_range:
  "parseFloat env v = Num x \<Longrightarrow>
   validateNumber env v (Num lo) (Num hi) = None \<longleftrightarrow> x < lo \<or> hi < x"
  by (simp add: validateNumber_None_iff)

lemma key_if: "x \<in> fst ` set (if c then [(k, v)] else []) \<longleftrightarrow> c \<and> x = k"
  by (cases c) auto

lemma if_single_Nil: "(if c then [a] else []) = [] \<longleftrightarrow> \<not> c"
  by simp

lemma newErrors_key_iff:
  "x \<in> fst ` set (newErrors env fd) \<longleftrightarrow>
     (\<not> validateDate env (form_date fd) \<and> x = ''date'')
   \<or> (validateNumber env (form_sleep fd) (Num 0) (Num 24) = None \<and> x = ''sleep'')
   \<or> (validateNumber env (form_stress fd) (Num 1) (Num 10) = None \<and> x = ''stress'')
   \<or> (validateNumber env (form_symptoms fd) (Num 1) (Num 10) = None \<and> x = ''symptoms'')
   \<or> (validateNumber env (form_mood fd) (Num 1) (Num 10) = None \<and> x = ''mood'')
   \<or> (validateNumber env (form_engagement fd) (Num 1) (Num 10) = None \<and> x = ''engagement'')
   \<or> (length (form_notes fd) < 10 \<and> x = ''notes'')"
  unfolding newErrors_def
  by (simp only: set_append image_Un Un_iff key_if list.map concat.simps append_Nil2)
     (simp add: formField_def)

lemma pair_if: "p \<in> set (if c then [q] else []) \<longleftrightarrow> c \<and> p = q"
  by (cases c) auto

text \<open>The messages that go with the keys.\<close>

lemma newErrors_entry_iff:
  "p \<in> set (newErrors env fd) \<longleftrightarrow>
     (\<not> validateDate env (form_date fd)
        \<and> p = (''date'', ''Please enter a valid date within the last year''))
   \<or> (validateNumber env (form_sleep fd) (Num 0) (Num 24) = None
        \<and> p = (''sleep'', ''Sleep must be between 0-24 hours''))
   \<or> (validateNumber env (form_stress fd) (Num 1) (Num 10) = None
        \<and> p = (''stress'', ''stress must be between 1-10''))
   \<or> (validateNumber env (form_symptoms fd) (Num 1) (Num 10) = None
        \<and> p = (''symptoms'', ''symptoms must be between 1-10''))
   \<or> (validateNumber env (form_mood fd) (Num 1) (Num 10) = None
        \<and> p = (''mood'', ''mood must be between 1-10''))
   \<or> (validateNumber env (form_engagement fd) (Num 1) (Num 10) = None
        \<and> p = (''engagement'', ''engagement must be between 1-10''))
   \<or> (length (form_notes fd) < 10
        \<and> p = (''notes'', ''Notes must be at least 10 characters''))"
  unfolding newErrors_def
  by (simp only: set_append Un_iff pair_if list.map concat.simps append_Nil2)
     (simp add: formField_def)

lemma newErrors_Nil_iff:
  "newErrors env fd = [] \<longleftrightarrow>
     validateDate env (form_date fd)
   \<and> validateNumber env (form_sleep fd) (Num 0) (Num 24) \<noteq> None
   \<and> validateNumber env (form_stress fd) (Num 1) (Num 10) \<noteq> None
   \<and> validateNumber env (form_symptoms fd) (Num 1) (Num 10) \<noteq> None
   \<and> validateNumber env (form_mood fd) (Num 1) (Num 10) \<noteq> None
   \<and> validateNumber env (form_engagement fd) (Num 1) (Num 10) \<noteq> None
   \<and> 10 \<le> length (form_notes fd)"
  unfolding newErrors_def
  by (simp only: append_is_Nil_conv if_single_Nil list.map concat.simps append_Nil2)
     (simp add: formField_def not_less)

lemma validateForm_eq:
  "validateForm env st
     = (newErrors env (formData st) = [], st\<lparr>errors := newErrors env (formData st)\<rparr>)"
  by (simp add: validateForm_def Let_def)

lemma handleSubmit_rejected:
  "newErrors env (formData st) \<noteq> [] \<Longrightarrow>
   handleSubmit env st = st\<lparr>errors := newErrors env (formData st)\<rparr>"
  by (simp add: handleSubmit_def validateForm_eq)

text \<open>
  C5. \<open>validateForm\<close> checks the date, the five numbers and the notes, and the error
  map it stores has the key of a field exactly when that field fails; it answers
  true exactly when the map is empty, that is when all seven checks pass; and when
  it answers false, \<open>handleSubmit\<close> changes nothing but the error map, so the entries
  stay as they were (short notes and a mood outside 1 to 10 are two such cases).
\<close>

theorem validateForm_all_or_nothing:
  "(''date'' \<in> fst ` set (newErrors env (formData st))
      \<longleftrightarrow> \<not> validateDate env (form_date (formData st)))
   \<and> (''sleep'' \<in> fst ` set (newErrors env (formData st))
      \<longleftrightarrow> validateNumber env (form_sleep (formData st)) (Num 0) (Num 24) = None)
   \<and> (''stress'' \<in> fst ` set (newErrors env (formData st))
      \<longleftrightarrow> validateNumber env (form_stress (formData st)) (Num 1) (Num 10) = None)
   \<and> (''symptoms'' \<in> fst ` set (newErrors env (formData st))
      \<longleftrightarrow> validateNumber env (form_symptoms (formData st)) (Num 1) (Num 10) = None)
   \<and> (''mood'' \<in> fst ` set (newErrors env (formData st))
      \<longleftrightarrow> validateNumber env (form_mood (formData st)) (Num 1) (Num 10) = None)
   \<and> (''engagement'' \<in> fst ` set (newErrors env (formData st))
      \<longleftrightarrow> validateNumber env (form_engagement (formData st)) (Num 1) (Num 10) = None)
   \<and> (''notes'' \<in> fst ` set (newErrors env (formData st))
      \<longleftrightarrow> length (form_notes (formData st)) < 10)
   \<and> errors (snd (validateForm env st)) = newErrors env (formData st)
   \<and> (fst (validateForm env st) \<longleftrightarrow> newErrors env (formData st) = [])
   \<and> (fst (validateForm env st) \<longleftrightarrow>
        validateDate env (form_date (formData st))
        \<and> validateNumber env (form_sleep (formData st)) (Num 0) (Num 24) \<noteq> None
        \<and> validateNumber env (form_stress (formData st)) (Num 1) (Num 10) \<noteq> None
        \<and> validateNumber env (form_symptoms (formData st)) (Num 1) (Num 10) \<noteq> None
        \<and> validateNumber env (form_mood (formData st)) (Num 1) (Num 10) \<noteq> None
        \<and> validateNumber env (form_engagement (formData st)) (Num 1) (Num 10) \<noteq> None
        \<and> 10 \<le> length (form_notes (formData st)))
   \<and> (\<not> fst (validateForm env st) \<longrightarrow>
        handleSubmit env st = st\<lparr>errors := newErrors env (formData st)\<rparr>
        \<and> entries (handleSubmit env st) = entries st)"
proof -
  have h: "\<not> fst (validateForm env st) \<longrightarrow>
        handleSubmit env st = st\<lparr>errors := newErrors env (formData st)\<rparr>
        \<and> entries (handleSubmit env st) = entries st"
    by (simp add: handleSubmit_rejected validateForm_eq)
  have a: "fst (validateForm env st) \<longleftrightarrow>
        validateDate env (form_date (formData st))
        \<and> validateNumber env (form_sleep (formData st)) (Num 0) (Num 24) \<noteq> None
        \<and> validateNumber env (form_stress (formData st)) (Num 1) (Num 10) \<noteq> None
        \<and> validateNumber env (form_symptoms (formData st)) (Num 1) (Num 10) \<noteq> None
        \<and> validateNumber env (form_mood (formData st)) (Num 1) (Num 10) \<noteq> None
        \<and> validateNumber env (form_engagement (formData st)) (Num 1) (Num 10) \<noteq> None
        \<and> 10 \<le> length (form_notes (formData st))"
    by (simp only: validateForm_eq fst_conv newErrors_Nil_iff)
  show ?thesis
    by (intro conjI h a) (simp_all add: newErrors_key_iff validateForm_eq)
qed

lemma validateNumber_sample:
  "validateNumber (sample_platform t tz) ''8'' (Num 0) (Num 24) = Some (Num 8)"
  "validateNumber (sample_platform t tz) ''3'' (Num 1) (Num 10) = Some (Num 3)"
  "validateNumber (sample_platform t tz) ''2'' (Num 1) (Num 10) = Some (Num 2)"
  "validateNumber (sample_platform t tz) ''6'' (Num 1) (Num 10) = Some (Num 6)"
  "validateNumber (sample_platform t tz) ''7'' (Num 1) (Num 10) = Some (Num 7)"
  "validateNumber (sample_platform t tz) ''11'' (Num 1) (Num 10) = None"
  by (simp_all add: validateNumber_def sample_parseNumber_examples)

lemma newErrors_sample_bad:
  "newErrors (sample_platform 1709294400000 0) (sample_form ''11'' ''too short'')
     = [(''mood'', ''mood must be between 1-10''),
        (''notes'', ''Notes must be at least 10 characters'')]"
  by (simp add: newErrors_def sample_form_def formField_def validateDate_sample
      validateNumber_sample)

theorem validateForm_all_or_nothing_witness:
  "\<not> fst (validateForm (sample_platform 1709294400000 0)
            (sample_state (sample_form ''11'' ''too short'')))
   \<and> ''mood'' \<in> fst ` set (newErrors (sample_platform 1709294400000 0)
                              (sample_form ''11'' ''too short''))
   \<and> ''notes'' \<in> fst ` set (newErrors (sample_platform 1709294400000 0)
                              (sample_form ''11'' ''too short''))
   \<and> entries (handleSubmit (sample_platform 1709294400000 0)
               (sample_state (sample_form ''11'' ''too short'')))
      = [sample_entry ''2024-02-29'' 5 []]"
  using validateForm_all_or_nothing [of "sample_platform 1709294400000 0"
      "sample_state (sample_form ''11'' ''too short'')"]
  by (simp add: sample_state_def newErrors_sample_bad)

subsection \<open>Calendar arithmetic\<close>

lemma div_bounds:
  fixes x k :: int
  assumes "0 < k"
  shows "k * (x div k) \<le> x" and "x < k * (x div k) + k"
proof -
  have "k * (x div k) + x mod k = x" by (rule mult_div_mod_eq)
  moreover have "0 \<le> x mod k" using assms by simp
  moreover have "x mod k < k" using assms by simp
  ultimately show "k * (x div k) \<le> x" and "x < k * (x div k) + k" by linarith+
qed

lemma DayFromYear_estimate:
  "400 * DayFromYear (n + 1970) \<le> 146097 * n + 589"
  "146097 * n - 506 \<le> 400 * DayFromYear (n + 1970)"
proof -
  define a where "a = (n + 1) div 4"
  define b where "b = (n + 69) div 100"
  define c where "c = (n + 369) div 400"
  have d: "400 * DayFromYear (n + 1970) = 146000 * n + 400 * a - 400 * b + 400 * c"
    by (simp add: DayFromYear_def a_def b_def c_def add.commute)
  have a: "4 * a \<le> n + 1" "n + 1 < 4 * a + 4"
    unfolding a_def using div_bounds [of 4 "n + 1"] by simp_all
  have b: "100 * b \<le> n + 69" "n + 69 < 100 * b + 100"
    unfolding b_def using div_bounds [of 100 "n + 69"] by simp_all
  have c: "400 * c \<le> n + 369" "n + 369 < 400 * c + 400"
    unfolding c_def using div_bounds [of 400 "n + 369"] by simp_all
  show "400 * DayFromYear (n + 1970) \<le> 146097 * n + 589"
    unfolding d using a b c by linarith
  show "146097 * n - 506 \<le> 400 * DayFromYear (n + 1970)"
    unfolding d using a b c by linarith
qed

lemma YearFromDay_bounds:
  "DayFromYear (YearFromDay d) \<le> d \<and> d < DayFromYear (YearFromDay d + 1)"
proof -
  define n where "n = (400 * d) div 146097"
  have n: "146097 * n \<le> 400 * d" "400 * d < 146097 * n + 146097"
    unfolding n_def using div_bounds [of 146097 "400 * d"] by simp_all
  have lo: "DayFromYear (n - 1 + 1970) \<le> d"
    using DayFromYear_estimate(1) [of "n - 1"] n by (simp add: algebra_simps)
  have hi: "d < DayFromYear (n + 2 + 1970)"
    using DayFromYear_estimate(2) [of "n + 2"] n by (simp add: algebra_simps)
  have y: "1970 + (400 * d) div 146097 = n + 1970"
    by (simp add: n_def)
  show ?thesis
    using lo hi unfolding YearFromDay_def y Let_def
    by (auto simp: algebra_simps)
qed


lemma div_step:
  fixes x k :: int
  assumes "0 < k"
  shows "(x + 1) div k = x div k + (if (x + 1) mod k = 0 then 1 else 0)"
proof -
  define q r where "q = x div k" and "r = x mod k"
  have x: "x = k * q + r" and r: "0 \<le> r" "r < k"
    using assms by (simp_all add: q_def r_def)
  show ?thesis
  proof (cases "r + 1 = k")
    case True
    then have e: "x + 1 = k * (q + 1) + 0" using x by (simp add: algebra_simps)
    have "(x + 1) div k = q + 1" using assms by (intro int_div_pos_eq [OF e]) simp_all
    moreover have "(x + 1) mod k = 0" using assms by (intro int_mod_pos_eq [OF e]) simp_all
    ultimately show ?thesis by (simp add: q_def)
  next
    case False
    then have b: "0 \<le> r + 1" "r + 1 < k" using r by simp_all
    have e: "x + 1 = k * q + (r + 1)" using x by simp
    have "(x + 1) div k = q" by (rule int_div_pos_eq [OF e b])
    moreover have "(x + 1) mod k = r + 1" by (rule int_mod_pos_eq [OF e b])
    ultimately show ?thesis using r by (simp add: q_def)
  qed
qed

lemma leap_mods:
  "(y - 1968) mod 4 = y mod (4::int)"
  "(y - 1900) mod 100 = y mod (100::int)"
  "(y - 1600) mod 400 = y mod (400::int)"
proof -
  have "(y + 4 * (- 492)) mod 4 = y mod 4" by (rule mod_mult_self2)
  then show "(y - 1968) mod 4 = y mod (4::int)" by simp
  have "(y + 100 * (- 19)) mod 100 = y mod 100" by (rule mod_mult_self2)
  then show "(y - 1900) mod 100 = y mod (100::int)" by simp
  have "(y + 400 * (- 4)) mod 400 = y mod 400" by (rule mod_mult_self2)
  then show "(y - 1600) mod 400 = y mod (400::int)" by simp
qed

lemma mod_4_100_400:
  "y mod 100 = 0 \<Longrightarrow> y mod 4 = (0::int)"
  "y mod 400 = 0 \<Longrightarrow> y mod 100 = (0::int)"
proof -
  have "(4::int) dvd 100" "(100::int) dvd 400" by simp_all
  then show "y mod 100 = 0 \<Longrightarrow> y mod 4 = (0::int)" "y mod 400 = 0 \<Longrightarrow> y mod 100 = (0::int)"
    by (meson dvd_trans mod_eq_0_iff_dvd)+
qed

lemma DayFromYear_Suc: "DayFromYear (y + 1) = DayFromYear y + DaysInYear y"
proof -
  have a: "(y + 1 - 1969) div 4 = (y - 1969) div 4 + (if y mod 4 = 0 then 1 else 0)"
    using div_step [of 4 "y - 1969"] leap_mods(1) [of y] by (simp add: algebra_simps)
  have b: "(y + 1 - 1901) div 100 = (y - 1901) div 100 + (if y mod 100 = 0 then 1 else 0)"
    using div_step [of 100 "y - 1901"] leap_mods(2) [of y] by (simp add: algebra_simps)
  have c: "(y + 1 - 1601) div 400 = (y - 1601) div 400 + (if y mod 400 = 0 then 1 else 0)"
    using div_step [of 400 "y - 1601"] leap_mods(3) [of y] by (simp add: algebra_simps)
  show ?thesis
    unfolding DayFromYear_def DaysInYear_def a b c
    using mod_4_100_400 [of y] by (simp split: if_splits)
qed


text \<open>\<open>YearFromDay\<close> computes the year that ECMAScript defines: the largest \<open>y\<close> with
  \<open>DayFromYear y \<le> d\<close>.\<close>

lemma DaysInYear_pos: "0 < DaysInYear y"
  by (simp add: DaysInYear_def)

lemma DayFromYear_add: "DayFromYear y < DayFromYear (y + 1 + int n)"
proof (induction n)
  case 0
  then show ?case using DayFromYear_Suc [of y] DaysInYear_pos [of y] by simp
next
  case (Suc n)
  have "DayFromYear (y + 1 + int (Suc n)) = DayFromYear (y + 1 + int n) + DaysInYear (y + 1 + int n)"
    using DayFromYear_Suc [of "y + 1 + int n"] by (simp add: algebra_simps)
  with Suc DaysInYear_pos [of "y + 1 + int n"] show ?case by simp
qed

lemma DayFromYear_strict_mono: "y < y' \<Longrightarrow> DayFromYear y < DayFromYear y'"
proof -
  assume "y < y'"
  then have "y' = y + 1 + int (nat (y' - y - 1))" by simp
  then show ?thesis using DayFromYear_add [of y "nat (y' - y - 1)"] by simp
qed

lemma YearFromDay_greatest: "DayFromYear y \<le> d \<longleftrightarrow> y \<le> YearFromDay d"
proof
  assume a: "DayFromYear y \<le> d"
  show "y \<le> YearFromDay d"
  proof (rule ccontr)
    assume "\<not> y \<le> YearFromDay d"
    then have "YearFromDay d + 1 \<le> y" by simp
    then have "DayFromYear (YearFromDay d + 1) \<le> DayFromYear y"
      using DayFromYear_strict_mono [of "YearFromDay d + 1" y]
      by (cases "YearFromDay d + 1 = y") auto
    with a YearFromDay_bounds [of d] show False by simp
  qed
next
  assume "y \<le> YearFromDay d"
  then have "DayFromYear y \<le> DayFromYear (YearFromDay d)"
    using DayFromYear_strict_mono [of y "YearFromDay d"]
    by (cases "y = YearFromDay d") auto
  with YearFromDay_bounds [of d] show "DayFromYear y \<le> d" by simp
qed

lemma monthOfDay_range: "0 \<le> monthOfDay l d \<and> monthOfDay l d \<le> 11"
  by (simp add: monthOfDay_def)

lemma MakeDay_fields: "MakeDay (YearFromTime t) (MonthFromTime t) (DateFromTime t) = Day t"
proof -
  have m: "0 \<le> MonthFromTime t" "MonthFromTime t \<le> 11"
    using monthOfDay_range by (simp_all add: MonthFromTime_def)
  then have "MonthFromTime t div 12 = 0" "MonthFromTime t mod 12 = MonthFromTime t"
    by simp_all
  then show ?thesis
    by (simp add: MakeDay_def DateFromTime_def DayWithinYear_def)
qed

lemma MakeDate_le_iff: "MakeDate d 0 \<le> t \<longleftrightarrow> d \<le> Day t"
proof -
  define q where "q = t div 86400000"
  have q: "86400000 * q \<le> t" "t < 86400000 * q + 86400000"
    unfolding q_def using div_bounds [of 86400000 t] by simp_all
  have "d * 86400000 \<le> t \<longleftrightarrow> d \<le> q"
    using q by linarith
  then show ?thesis by (simp add: MakeDate_def Day_def msPerDay_def q_def)
qed

lemma MakeDate_mono: "MakeDate a 0 \<le> MakeDate b 0 \<longleftrightarrow> a \<le> b"
  by (simp add: MakeDate_def msPerDay_def)

lemma Day_MakeDate: "Day (MakeDate d 0) = d"
  by (simp add: Day_def MakeDate_def msPerDay_def)


lemma leapDays_cases: "leapDays y = 0 \<or> leapDays y = 1"
  by (simp add: leapDays_def DaysInYear_def)

lemma monthStart_leap:
  "0 \<le> m \<Longrightarrow> m \<le> 11 \<Longrightarrow> monthStart l m = monthStart 0 m + (if 2 \<le> m then l else 0)"
  by (simp add: monthStart_def)

lemma MakeDay_in_year:
  "0 \<le> m \<Longrightarrow> m \<le> 11 \<Longrightarrow>
   MakeDay y m d = DayFromYear y + monthStart (leapDays y) m + d - 1"
  by (simp add: MakeDay_def)

lemma MakeDay_year_before:
  assumes "0 \<le> m" and "m \<le> 11"
  shows "MakeDay y m d - MakeDay (y - 1) m d
           = 365 + (if 2 \<le> m then leapDays y else leapDays (y - 1))"
proof -
  have "DayFromYear y = DayFromYear (y - 1) + DaysInYear (y - 1)"
    using DayFromYear_Suc [of "y - 1"] by simp
  then have y: "DayFromYear y = DayFromYear (y - 1) + 365 + leapDays (y - 1)"
    by (simp add: leapDays_def)
  show ?thesis
    unfolding MakeDay_in_year [OF assms] y
    using monthStart_leap [OF assms, of "leapDays y"] monthStart_leap [OF assms, of "leapDays (y - 1)"]
    by simp
qed

lemma getMonth_range: "0 \<le> getMonth env t \<and> getMonth env t \<le> 11"
  using monthOfDay_range by (simp add: getMonth_def MonthFromTime_def)

lemma window_length: "todayDay env - oneYearAgoDay env \<in> {365, 366}"
proof -
  have "todayDay env - oneYearAgoDay env
          = 365 + (if 2 \<le> getMonth env (now env) then leapDays (getFullYear env (now env))
                   else leapDays (getFullYear env (now env) - 1))"
    unfolding todayDay_def oneYearAgoDay_def
    using getMonth_range [of env "now env"] by (intro MakeDay_year_before) simp_all
  then show ?thesis
    using leapDays_cases [of "getFullYear env (now env)"]
      leapDays_cases [of "getFullYear env (now env) - 1"]
    by auto
qed

lemma todayDay_eq: "todayDay env = Day (LocalTime env (now env))"
  by (simp add: todayDay_def getFullYear_def getMonth_def getDate_def MakeDay_fields)

subsection \<open>\<open>validateDate\<close>\<close>

lemma validateDate_unparsed: "Date_parse env s = None \<Longrightarrow> \<not> validateDate env s"
  by (simp add: validateDate_def)

text \<open>
  C6, as amended. A string that does not parse is rejected. In a browser whose
  local zone is UTC (the offset is 0 at every time), an ISO calendar date is
  accepted exactly when its day lies
  between the day that has today's month and day of month in the previous calendar
  year and today, both included. That window is one calendar year long: 365 or 366
  days, not always 365.
\<close>

theorem validateDate_calendar_year:
  "(Date_parse env s = None \<longrightarrow> \<not> validateDate env s)
   \<and> (LocalTZA env = (\<lambda>t isUTC. 0) \<and> parse_iso_date s = Some (y, m, d) \<longrightarrow>
        (validateDate env s \<longleftrightarrow>
           oneYearAgoDay env \<le> MakeDay y (m - 1) d \<and> MakeDay y (m - 1) d \<le> todayDay env))
   \<and> todayDay env - oneYearAgoDay env \<in> {365, 366}"
proof -
  have "validateDate env s \<longleftrightarrow>
          oneYearAgoDay env \<le> MakeDay y (m - 1) d \<and> MakeDay y (m - 1) d \<le> todayDay env"
    if z: "LocalTZA env = (\<lambda>t isUTC. 0)" and i: "parse_iso_date s = Some (y, m, d)"
  proof -
    have t: "todayDay env = Day (now env)"
      using z by (simp add: todayDay_eq LocalTime_def)
    have p: "Date_parse env s = Some (MakeDate (MakeDay y (m - 1) d) 0)"
      using i by (simp add: Date_parse_def)
    show ?thesis
      unfolding t using z
      by (simp add: validateDate_def p newDate_ymd_def UTC_def MakeDate_le_iff Day_MakeDate
          Let_def oneYearAgoDay_def)
  qed
  with window_length [of env] validateDate_unparsed [of env s] show ?thesis by blast
qed

theorem validateDate_calendar_year_witness:
  "LocalTZA (sample_platform 1709294400000 0) = (\<lambda>t isUTC. 0)
   \<and> parse_iso_date ''2023-03-01'' = Some (2023, 3, 1)
   \<and> validateDate (sample_platform 1709294400000 0) ''2023-03-01''
   \<and> parse_iso_date ''2023-02-28'' = Some (2023, 2, 28)
   \<and> \<not> validateDate (sample_platform 1709294400000 0) ''2023-02-28''
   \<and> todayDay (sample_platform 1709294400000 0)
        - oneYearAgoDay (sample_platform 1709294400000 0) = 366"
  using validateDate_calendar_year [of "sample_platform 1709294400000 0" "''2023-03-01''" 2023 3 1]
    validateDate_calendar_year [of "sample_platform 1709294400000 0" "''2023-02-28''" 2023 2 28]
  by (simp add: sample_zone parse_examples todayDay_def oneYearAgoDay_def getFullYear_def
      getMonth_def getDate_def LocalTime_def noon_2024_03_01 MakeDay_examples)

text \<open>
  The claim as the specification words it fails on 1 March 2024 at noon UTC:
  1 March 2023 is accepted, and it is 366 days back.
\<close>

theorem validateDate_365_counterexample:
  "validateDate (sample_platform 1709294400000 0) ''2023-03-01''
   \<and> \<not> within365days (sample_platform 1709294400000 0) ''2023-03-01''"
  by (simp add: validateDate_sample_2023 within365days_def Date_parse_def parse_examples
      Day_MakeDate todayDay_def getFullYear_def getMonth_def getDate_def LocalTime_def
      noon_2024_03_01 MakeDay_examples)

text \<open>
  Away from UTC the bounds and the parsed date are not taken in the same zone. At
  02:00 on 1 November 2026 in a zone five and a half hours ahead of UTC, the date
  the form proposes (today's local date) is rejected.
\<close>

lemma night_2026_11_01:
  "Day 1793498400000 = 20758" "YearFromTime 1793498400000 = 2026"
  "MonthFromTime 1793498400000 = 10" "DateFromTime 1793498400000 = 1"
proof -
  show d: "Day 1793498400000 = 20758" by (simp add: Day_def msPerDay_def)
  have "YearFromDay 20758 = 2026" by (simp add: YearFromDay_def DayFromYear_def)
  then show y: "YearFromTime 1793498400000 = 2026" by (simp add: YearFromTime_def d)
  have w: "DayWithinYear 1793498400000 = 304" by (simp add: DayWithinYear_def d y DayFromYear_def)
  have l: "leapDays 2026 = 0" by (simp add: leapDays_def DaysInYear_def)
  show m: "MonthFromTime 1793498400000 = 10" by (simp add: MonthFromTime_def y w l monthOfDay_def)
  show "DateFromTime 1793498400000 = 1" by (simp add: DateFromTime_def y w l m monthStart_def)
qed

lemma validateDate_rejects_local_today:
  "form_date (emptyForm (sample_platform 1793478600000 19800000)) = ''2026-11-01''
   \<and> \<not> validateDate (sample_platform 1793478600000 19800000) ''2026-11-01''"
proof -
  have p: "parse_iso_date ''2026-11-01'' = Some (2026, 11, 1)"
    by (simp add: parse_iso_date_def digit_def DaysInMonth_def leapDays_def DaysInYear_def)
  have m: "MakeDay 2026 10 1 = 20758"
    by (simp add: MakeDay_def DayFromYear_def leapDays_def DaysInYear_def monthStart_def)
  have f: "form_date (emptyForm (sample_platform 1793478600000 19800000)) = ''2026-11-01''"
    by (simp add: emptyForm_def format_yyyy_MM_dd_def getFullYear_def getMonth_def getDate_def
        LocalTime_def night_2026_11_01 padStart_def toString_nat_def digits_of.simps)
  have "\<not> validateDate (sample_platform 1793478600000 19800000) ''2026-11-01''"
    by (simp add: validateDate_def Date_parse_def p m MakeDate_def msPerDay_def)
  with f show ?thesis by simp
qed

subsection \<open>\<open>sanitizeString\<close>\<close>

lemma fold_removeAll_filter: "fold removeAll cs s = filter (\<lambda>c. c \<notin> set cs) s"
proof (induction cs arbitrary: s)
  case Nil
  then show ?case by simp
next
  case (Cons c cs)
  have "fold removeAll (c # cs) s = filter (\<lambda>x. x \<notin> set cs) (removeAll c s)"
    by (simp add: Cons.IH)
  also have "\<dots> = filter (\<lambda>x. x \<notin> set (c # cs)) s"
    by (induction s) auto
  finally show ?case .
qed

lemma trim_prefix: "prefix (trim s) (dropWhile isWhiteSpace s)"
proof -
  let ?t = "dropWhile isWhiteSpace s"
  have "?t = rev (dropWhile isWhiteSpace (rev ?t)) @ rev (takeWhile isWhiteSpace (rev ?t))"
    by (metis rev_append rev_rev_ident takeWhile_dropWhile_id)
  then show ?thesis unfolding trim_def by (metis prefixI)
qed

lemma subseq_trim: "subseq (trim s) s"
proof -
  have "subseq (trim s) (dropWhile isWhiteSpace s)"
    using trim_prefix by (rule prefix_imp_subseq)
  moreover have "subseq (dropWhile isWhiteSpace s) s"
    by (rule suffix_imp_subseq) (rule suffix_dropWhile)
  ultimately show ?thesis by (rule subseq_order.order_trans)
qed

lemma dropWhile_prefix_id:
  assumes "prefix xs (dropWhile P s)"
  shows "dropWhile P xs = xs"
proof (cases xs)
  case Nil
  then show ?thesis by simp
next
  case (Cons x xs')
  with assms obtain r where r: "dropWhile P s = x # r"
    by (auto simp: prefix_def)
  then have "\<not> P x" by (metis hd_dropWhile list.distinct(1) list.sel(1))
  with Cons show ?thesis by simp
qed

lemma dropWhile_trim: "dropWhile isWhiteSpace (take n (trim s)) = take n (trim s)"
proof -
  have "prefix (take n (trim s)) (trim s)" by (rule take_is_prefix)
  then have "prefix (take n (trim s)) (dropWhile isWhiteSpace s)"
    using trim_prefix by (rule prefix_order.order_trans)
  then show ?thesis by (rule dropWhile_prefix_id)
qed

text \<open>
  C7. \<open>sanitizeString\<close> deletes every occurrence of each of the ten characters,
  trims, and keeps at most the first 500 characters: the result is never longer
  than 500, holds none of the ten characters, only deletes from its input, and does
  not start with white space.
\<close>

theorem sanitizeString_spec:
  "sanitizeString s = take 500 (trim (fold removeAll disallowed s))
   \<and> length (sanitizeString s) \<le> 500
   \<and> set (sanitizeString s) \<inter> set disallowed = {}
   \<and> subseq (sanitizeString s) s
   \<and> dropWhile isWhiteSpace (sanitizeString s) = sanitizeString s"
proof -
  let ?f = "filter (\<lambda>c. c \<notin> set disallowed) s"
  have 1: "sanitizeString s = take 500 (trim (fold removeAll disallowed s))"
    by (simp add: sanitizeString_def fold_removeAll_filter)
  have 2: "length (sanitizeString s) \<le> 500"
    by (simp add: sanitizeString_def)
  have sub: "subseq (sanitizeString s) ?f"
    unfolding sanitizeString_def
    by (rule subseq_order.order_trans [OF prefix_imp_subseq [OF take_is_prefix] subseq_trim])
  then have "set (sanitizeString s) \<subseteq> set ?f"
    by (metis set_nths_subset subseq_conv_nths)
  then have 3: "set (sanitizeString s) \<inter> set disallowed = {}"
    by auto
  have "subseq ?f s" by simp
  with sub have 4: "subseq (sanitizeString s) s"
    by (rule subseq_order.order_trans)
  have 5: "dropWhile isWhiteSpace (sanitizeString s) = sanitizeString s"
    unfolding sanitizeString_def by (rule dropWhile_trim)
  from 1 2 3 4 5 show ?thesis by blast
qed

theorem sanitizeString_spec_witness:
  "sanitizeString ''  <b>Tom & Jerry</b>; (1+1)  '' = ''bTom  Jerryb 11''
   \<and> length (sanitizeString ''  <b>Tom & Jerry</b>; (1+1)  '') \<le> 500
   \<and> set (sanitizeString ''  <b>Tom & Jerry</b>; (1+1)  '') \<inter> set disallowed = {}"
  using sanitizeString_spec [of "''  <b>Tom & Jerry</b>; (1+1)  ''"]
  by (simp add: sanitizeString_def disallowed_def trim_def isWhiteSpace_def whiteSpace_def)

subsection \<open>The notes of a stored entry\<close>

lemma length_trim_le: "length (trim s) \<le> length s"
proof -
  have "length (dropWhile isWhiteSpace (rev (dropWhile isWhiteSpace s)))
          \<le> length (rev (dropWhile isWhiteSpace s))"
    by (rule length_dropWhile_le)
  then have "length (trim s) \<le> length (dropWhile isWhiteSpace s)"
    unfolding trim_def by simp
  also have "\<dots> \<le> length s" by (rule length_dropWhile_le)
  finally show ?thesis .
qed

lemma length_sanitizeString_le: "length (sanitizeString s) \<le> length s"
proof -
  have "length (sanitizeString s) \<le> length (trim (filter (\<lambda>c. c \<notin> set disallowed) s))"
    by (simp add: sanitizeString_def)
  also have "\<dots> \<le> length (filter (\<lambda>c. c \<notin> set disallowed) s)"
    by (rule length_trim_le)
  also have "\<dots> \<le> length s" by (rule length_filter_le)
  finally show ?thesis .
qed

lemma sanitizeString_clean:
  assumes "set s \<inter> set disallowed = {}" and "trim s = s"
  shows "sanitizeString s = take 500 s"
proof -
  have "filter (\<lambda>c. c \<notin> set disallowed) s = s"
    using assms(1) by (auto simp: filter_id_conv)
  then show ?thesis by (simp add: sanitizeString_def assms(2))
qed

lemma handleSubmit_accepted:
  "newErrors env (formData st) = [] \<Longrightarrow>
   handleSubmit env st =
     st\<lparr>entries := upsert (form_date (formData st)) (newEntry env (formData st)) (entries st),
        formData := emptyForm env, errors := []\<rparr>"
  by (simp add: handleSubmit_def validateForm_eq)

lemma date_newEntry: "date (newEntry env fd) = form_date fd"
  by (simp add: newEntry_def)

text \<open>An accepted submission is the replacement by date with the new entry.\<close>

lemma handleSubmit_entries:
  "newErrors env (formData st) = [] \<Longrightarrow>
   entries (handleSubmit env st)
     = upsert (date (newEntry env (formData st))) (newEntry env (formData st)) (entries st)"
  by (simp add: handleSubmit_accepted date_newEntry)

text \<open>
  C8, as amended. An accepted submission stores one entry, and its notes are the
  sanitized form of a raw text of at least 10 characters; they are never longer than
  the raw text, and they have at least 10 characters when the raw text has none of
  the ten characters and no white space at its ends.
\<close>

theorem stored_notes_from_valid_raw:
  assumes "fst (validateForm env st)"
  shows "newEntry env (formData st) \<in> set (entries (handleSubmit env st))
       \<and> set (entries (handleSubmit env st))
           \<subseteq> insert (newEntry env (formData st)) (set (entries st))
       \<and> notes_str (newEntry env (formData st)) = sanitizeString (form_notes (formData st))
       \<and> 10 \<le> length (form_notes (formData st))
       \<and> length (notes_str (newEntry env (formData st))) \<le> length (form_notes (formData st))
       \<and> (set (form_notes (formData st)) \<inter> set disallowed = {}
            \<and> trim (form_notes (formData st)) = form_notes (formData st)
          \<longrightarrow> 10 \<le> length (notes_str (newEntry env (formData st))))"
proof -
  let ?fd = "formData st"
  from assms have ok: "newErrors env ?fd = []"
    by (simp add: validateForm_eq)
  then have len: "10 \<le> length (form_notes ?fd)"
    by (simp add: newErrors_Nil_iff)
  have e: "entries (handleSubmit env st)
             = upsert (form_date ?fd) (newEntry env ?fd) (entries st)"
    by (simp add: handleSubmit_accepted [OF ok])
  have s: "set (entries (handleSubmit env st))
             = insert (newEntry env ?fd) {x \<in> set (entries st). date x \<noteq> form_date ?fd}"
    unfolding e upsert_def by (auto simp: set_sort_cmp)
  have n: "notes_str (newEntry env ?fd) = sanitizeString (form_notes ?fd)"
    by (simp add: newEntry_def)
  have c: "set (form_notes ?fd) \<inter> set disallowed = {} \<and> trim (form_notes ?fd) = form_notes ?fd
          \<longrightarrow> 10 \<le> length (notes_str (newEntry env ?fd))"
    using len by (auto simp: n sanitizeString_clean)
  from s len n c length_sanitizeString_le [of "form_notes ?fd"] show ?thesis
    by auto
qed

lemma newErrors_sample_ok:
  "10 \<le> length n \<Longrightarrow>
   newErrors (sample_platform 1709294400000 0) (sample_form ''7'' n) = []"
  by (simp add: newErrors_def sample_form_def formField_def validateDate_sample
      validateNumber_sample)

lemma sanitize_angle_brackets: "sanitizeString ''<<<<<<<<<<'' = []"
  by (simp add: sanitizeString_def disallowed_def trim_def)

theorem stored_notes_from_valid_raw_witness:
  "fst (validateForm (sample_platform 1709294400000 0)
          (sample_state (sample_form ''7'' ''slept well, long walk'')))
   \<and> newEntry (sample_platform 1709294400000 0) (sample_form ''7'' ''slept well, long walk'')
       \<in> set (entries (handleSubmit (sample_platform 1709294400000 0)
                 (sample_state (sample_form ''7'' ''slept well, long walk''))))
   \<and> notes_str (newEntry (sample_platform 1709294400000 0)
                  (sample_form ''7'' ''slept well, long walk''))
       = ''slept well, long walk''"
  using stored_notes_from_valid_raw [of "sample_platform 1709294400000 0"
      "sample_state (sample_form ''7'' ''slept well, long walk'')"]
  by (simp add: validateForm_eq sample_state_def newErrors_sample_ok)
     (simp add: sample_form_def sanitizeString_def disallowed_def trim_def isWhiteSpace_def
        whiteSpace_def)

text \<open>
  The claim as the specification words it fails: ten angle brackets pass the length
  check and are stored as the empty string.
\<close>

theorem stored_notes_short_counterexample:
  "fst (validateForm (sample_platform 1709294400000 0)
          (sample_state (sample_form ''7'' ''<<<<<<<<<<'')))
   \<and> map notes_str (entries (handleSubmit (sample_platform 1709294400000 0)
                              (sample_state (sample_form ''7'' ''<<<<<<<<<<''))))
       = [[], ''a quiet day at home'']"
  by (simp add: validateForm_eq handleSubmit_accepted sample_state_def newErrors_sample_ok)
     (simp add: upsert_def sort_cmp_def sample_form_def sample_entry_def newEntry_def
        byDateDesc_def localeCompare_def sanitize_angle_brackets)

subsection \<open>Loading\<close>

text \<open>The effect itself never throws: the one call that can is inside the \<open>try\<close>.\<close>

lemma load_never_throws: "\<exists>upd console. load env localStorage = Inr (upd, console)"
  by (auto simp: load_def try_catch_def split: option.splits sum.splits)

text \<open>With no blob the collection stays empty and nothing is logged; the guard
  \<open>if (savedEntries)\<close> treats a blob that is the empty string in the same way.\<close>

lemma load_absent:
  "localStorage ''moodTrackerEntries'' = None \<or> localStorage ''moodTrackerEntries'' = Some []
   \<Longrightarrow> load env localStorage = Inr (None, []) \<and> mount env localStorage = Inr (VArr [], [])"
  by (auto simp: load_def mount_def)

text \<open>A blob that \<open>JSON.parse\<close> rejects is logged and the collection stays empty.\<close>

lemma load_syntax_error:
  "localStorage ''moodTrackerEntries'' = Some s \<Longrightarrow> s \<noteq> [] \<Longrightarrow> JSON_parse env s = Inl error
   \<Longrightarrow> load env localStorage = Inr (None, [''Error loading entries: '' @ error])
     \<and> mount env localStorage = Inr (VArr [], [''Error loading entries: '' @ error])"
  by (simp add: load_def mount_def try_catch_def)

text \<open>A blob that \<open>JSON.parse\<close> accepts goes to \<open>setEntries\<close> as it is, and nothing is logged.\<close>

lemma load_parsed:
  "localStorage ''moodTrackerEntries'' = Some s \<Longrightarrow> s \<noteq> [] \<Longrightarrow> JSON_parse env s = Inr v
   \<Longrightarrow> load env localStorage = Inr (Some v, [])"
  by (simp add: load_def try_catch_def)

text \<open>On a collection of typed entries the render reads what the typed model says,
  and it throws only if the library does.\<close>

lemma slice_map: "slice k (map f xs) = map f (slice k xs)"
  by (simp add: slice_def Let_def drop_map)

lemma last30Days_of_entries:
  "last30Days_of (VArr (map entryValue es)) = Inr (map entryValue (last30Days es))"
  by (simp add: last30Days_of_def last30Days_def slice_map rev_map)

lemma traverse_map:
  "(\<And>x. x \<in> set xs \<Longrightarrow> f (h x) = Inr (g x)) \<Longrightarrow> traverse f (map h xs) = Inr (map g xs)"
  by (induction xs) simp_all

lemma traverse_Inl:
  "x \<in> set xs \<Longrightarrow> f x = Inl e \<Longrightarrow> \<exists>error. traverse f xs = Inl error"
  by (induction xs) (auto split: sum.splits)

lemma set_last30Days: "set (last30Days es) \<subseteq> set es"
  by (auto simp: last30Days_def slice_def Let_def dest: in_set_dropD)

lemma chartLabel_entry: "chartLabel env (entryValue e) = format_MMM_dd env (Some (VStr (date e)))"
  by (simp add: chartLabel_def date_of_def entryValue_def)

lemma drugNames_of_entry: "drugNames_of (entryValue e) = Inr (drugNames e)"
  by (simp add: drugNames_of_def entryValue_def)

lemma renderBody_entries:
  assumes "\<And>e. e \<in> set es \<Longrightarrow> format_MMM_dd env (Some (VStr (date e))) = Inr (label e)"
  shows "renderBody env (VArr (map entryValue es)) = Inr (map label (last30Days es))"
proof -
  have "chartLabel env (entryValue e) = Inr (label e)" if "e \<in> set (last30Days es)" for e
    using that set_last30Days [of es] assms [of e] by (auto simp: chartLabel_entry)
  then have c: "traverse (chartLabel env) (map entryValue (last30Days es))
                  = Inr (map label (last30Days es))"
    by (rule traverse_map)
  have d: "traverse drugNames_of (map entryValue es) = Inr (map drugNames es)"
    by (rule traverse_map) (rule drugNames_of_entry)
  show ?thesis
    by (simp add: renderBody_def last30Days_of_entries c d elements_def)
qed

lemma mount_entries:
  assumes "localStorage ''moodTrackerEntries'' = Some s" and "s \<noteq> []"
    and "JSON_parse env s = Inr (VArr (map entryValue es))"
    and "\<And>e. e \<in> set es \<Longrightarrow> format_MMM_dd env (Some (VStr (date e))) = Inr (label e)"
  shows "mount env localStorage = Inr (VArr (map entryValue es), [])"
proof -
  have "load env localStorage = Inr (Some (VArr (map entryValue es)), [])"
    using assms(1-3) by (rule load_parsed)
  then show ?thesis
    by (simp add: mount_def renderBody_entries [of es env label, OF assms(4)])
qed

lemma renderBody_example:
  "renderBody (sample_platform t tz) (VArr [entryValue (sample_entry ''2026-10-30'' 8 ''tea'')])
     = Inr [''Oct 30'']"
  using renderBody_entries [of "[sample_entry ''2026-10-30'' 8 ''tea'']" "sample_platform t tz"
      "\<lambda>e. ''Oct 30''"]
  by (simp add: sample_platform_def sample_entry_def last30Days_def slice_def)

text \<open>A parsed value that is not an array, or an array with an element that is not an
  object with a string \<open>drugNames\<close>, crashes the render, with nothing logged.\<close>

lemma last30Days_of_not_array:
  "(\<forall>xs. v \<noteq> VArr xs) \<Longrightarrow> \<exists>error. last30Days_of v = Inl error"
  by (cases v) (simp_all add: last30Days_of_def)

lemma renderBody_not_array:
  "(\<forall>xs. v \<noteq> VArr xs) \<Longrightarrow> \<exists>error. renderBody env v = Inl error"
  using last30Days_of_not_array [of v] by (auto simp: renderBody_def)

lemma renderBody_bad_element:
  assumes "x \<in> set xs" and "drugNames_of x = Inl e"
  shows "\<exists>error. renderBody env (VArr xs) = Inl error"
proof -
  obtain error where "traverse drugNames_of xs = Inl error"
    using traverse_Inl [of x xs drugNames_of e] assms by blast
  then show ?thesis
    by (auto simp: renderBody_def elements_def split: sum.splits)
qed

lemma mount_not_array:
  assumes "localStorage ''moodTrackerEntries'' = Some s" and "s \<noteq> []"
    and "JSON_parse env s = Inr v" and "\<forall>xs. v \<noteq> VArr xs"
  shows "\<exists>error. mount env localStorage = Inl error"
proof -
  obtain error where "renderBody env v = Inl error"
    using renderBody_not_array [OF assms(4)] by blast
  moreover have "load env localStorage = Inr (Some v, [])"
    using assms(1-3) by (rule load_parsed)
  ultimately show ?thesis
    by (simp add: mount_def)
qed

text \<open>
  C9. With the blob \<open>null\<close> the effect logs nothing and does not fall back to the empty
  collection: \<open>JSON.parse\<close> succeeds, \<open>setEntries(null)\<close> is called, and the render that
  follows throws at \<open>entries.slice(-30)\<close>, so the application crashes. The blobs \<open>{}\<close>
  and \<open>3\<close> crash at the same line, and \<open>[null]\<close> at \<open>e.date\<close>. A missing blob and a blob
  that \<open>JSON.parse\<close> rejects are handled as the claim says (\<open>load_absent\<close>,
  \<open>load_syntax_error\<close>), and the effect itself never throws (\<open>load_never_throws\<close>).
\<close>

theorem mount_null_blob_crashes:
  "load (sample_platform 1709294400000 0) [''moodTrackerEntries'' \<mapsto> ''null'']
     = Inr (Some VNull, [])
   \<and> mount (sample_platform 1709294400000 0) [''moodTrackerEntries'' \<mapsto> ''null'']
     = Inl ''TypeError: Cannot read properties of null''
   \<and> mount (sample_platform 1709294400000 0) [''moodTrackerEntries'' \<mapsto> ''{}'']
     = Inl ''TypeError: entries.slice is not a function''
   \<and> mount (sample_platform 1709294400000 0) [''moodTrackerEntries'' \<mapsto> ''3'']
     = Inl ''TypeError: entries.slice is not a function''
   \<and> mount (sample_platform 1709294400000 0) [''moodTrackerEntries'' \<mapsto> ''[null]'']
     = Inl ''TypeError: Cannot read properties of null''"
  by (simp add: mount_def load_def try_catch_def sample_JSON_parse renderBody_def
      last30Days_of_def slice_def chartLabel_def date_of_def)

text \<open>The same platform on a missing blob, an empty one and one that is not JSON.\<close>

lemma mount_examples:
  "mount (sample_platform 1709294400000 0) Map.empty = Inr (VArr [], [])"
  "mount (sample_platform 1709294400000 0) [''moodTrackerEntries'' \<mapsto> []] = Inr (VArr [], [])"
  "mount (sample_platform 1709294400000 0) [''moodTrackerEntries'' \<mapsto> ''{oops'']
     = Inr (VArr [], [''Error loading entries: SyntaxError''])"
  "mount (sample_platform 1709294400000 0) [''moodTrackerEntries'' \<mapsto> ''[]'']
     = Inr (VArr [], [])"
  by (simp_all add: mount_def load_def try_catch_def sample_JSON_parse renderBody_def
      last30Days_of_def slice_def elements_def)

end
